theory Spec2Isabelle
  imports Complex_Main "HOL-Library.Word"
begin

unbundle bit_operations_syntax

section \<open>Python values used by the packet parser\<close>

text \<open>
  The embedding follows \<^verbatim>\<open>src/packet_parser.py\<close> and
  \<^verbatim>\<open>src/dpdk/packet_capture.py\<close>. A Python \<^verbatim>\<open>bytes\<close> object is a list of
  8-bit words, a Python \<^verbatim>\<open>int\<close> is an \<^typ>\<open>int\<close>, a \<^verbatim>\<open>str\<close> is a
  \<^typ>\<open>string\<close>. The timestamp that \<^verbatim>\<open>parse_packet\<close> receives is a
  \<open>pyfloat\<close>: a finite double, an infinity or NaN. Inside the flow state and the
  statistics, which only finite timestamps reach, a \<^verbatim>\<open>float\<close> is the real number it
  denotes and arithmetic is exact. \<^verbatim>\<open>None\<close> is \<^term>\<open>None\<close>. Every exception the
  source can raise is a value of \<open>error\<close>.
\<close>

type_synonym bytes = "8 word list"

datatype error =
  StructError | OSError | ValueError | OverflowError | StatisticsError | ZeroDivisionError

text \<open>Truthiness of an optional float, as in \<^verbatim>\<open>if flow_state.last_time\<close>:
  \<^verbatim>\<open>None\<close> and \<^verbatim>\<open>0.0\<close> are false.\<close>

definition truthy :: "real option \<Rightarrow> bool" where
  "truthy t = (case t of None \<Rightarrow> False | Some x \<Rightarrow> x \<noteq> 0)"

text \<open>Python compares strings by code point, position by position; a proper prefix is
  smaller.\<close>

fun str_lt :: "string \<Rightarrow> string \<Rightarrow> bool" where
  "str_lt [] [] = False"
| "str_lt [] (y # ys) = True"
| "str_lt (x # xs) [] = False"
| "str_lt (x # xs) (y # ys) =
     (if x = y then str_lt xs ys else (of_char x :: nat) < of_char y)"

text \<open>Python compares tuples at the first position where they differ; equal tuples are
  not smaller. This is \<^verbatim>\<open>(ip, port) < (ip', port')\<close> on \<^verbatim>\<open>(str, int)\<close> pairs.\<close>

definition tuple_lt :: "string \<times> int \<Rightarrow> string \<times> int \<Rightarrow> bool" where
  "tuple_lt a b =
     (if fst a \<noteq> fst b then str_lt (fst a) (fst b) else snd a < snd b)"

text \<open>\<^verbatim>\<open>packet_data[i:j]\<close> for \<open>0 \<le> i \<le> j\<close>: slicing never raises, it truncates.\<close>

definition byte_slice :: "bytes \<Rightarrow> nat \<Rightarrow> nat \<Rightarrow> bytes" where
  "byte_slice b i j = take (j - i) (drop i b)"

text \<open>Big-endian unsigned fields of \<^verbatim>\<open>struct.unpack\<close>: \<^verbatim>\<open>B\<close>, \<^verbatim>\<open>H\<close>, \<^verbatim>\<open>L\<close>.\<close>

definition u8 :: "bytes \<Rightarrow> nat \<Rightarrow> int" where
  "u8 b i = uint (b ! i)"

definition u16 :: "bytes \<Rightarrow> nat \<Rightarrow> int" where
  "u16 b i = uint (b ! i) * 256 + uint (b ! (i + 1))"

definition u32 :: "bytes \<Rightarrow> nat \<Rightarrow> int" where
  "u32 b i = uint (b ! i) * 16777216 + uint (b ! (i + 1)) * 65536
           + uint (b ! (i + 2)) * 256 + uint (b ! (i + 3))"

text \<open>Decimal and two-digit hexadecimal text of a number (\<^verbatim>\<open>str(n)\<close>,
  \<^verbatim>\<open>'%02x' % b\<close>).\<close>

definition digit_char :: "nat \<Rightarrow> char" where
  "digit_char d = ''0123456789abcdef'' ! d"

fun decimal :: "nat \<Rightarrow> string" where
  "decimal n = (if n < 10 then [digit_char n] else decimal (n div 10) @ [digit_char (n mod 10)])"

declare decimal.simps [simp del]

definition hex2 :: "8 word \<Rightarrow> string" where
  "hex2 w = [digit_char (unat w div 16), digit_char (unat w mod 16)]"

fun join :: "string \<Rightarrow> string list \<Rightarrow> string" where
  "join sep [] = []"
| "join sep [x] = x"
| "join sep (x # y # ys) = x @ sep @ join sep (y # ys)"

text \<open>\<^verbatim>\<open>socket.inet_ntoa\<close>: dotted decimal of exactly four bytes, \<^verbatim>\<open>OSError\<close>
  otherwise.\<close>

definition inet_ntoa :: "bytes \<Rightarrow> error + string" where
  "inet_ntoa b =
     (if length b \<noteq> 4 then Inl OSError
      else Inr (join ''.'' (map (\<lambda>w. decimal (unat w)) b)))"

section \<open>FlowKey\<close>

record FlowKey =
  ip1 :: string
  port1 :: int
  ip2 :: string
  port2 :: int
  key_protocol :: int
  is_forward :: bool

text \<open>\<^verbatim>\<open>FlowKey.__init__(src_ip, dst_ip, src_port, dst_port, protocol)\<close>.\<close>

definition FlowKey_init :: "string \<Rightarrow> string \<Rightarrow> int \<Rightarrow> int \<Rightarrow> int \<Rightarrow> FlowKey" where
  "FlowKey_init src_ip dst_ip src_port dst_port proto =
     (if tuple_lt (src_ip, src_port) (dst_ip, dst_port)
      then \<lparr>ip1 = src_ip, port1 = src_port, ip2 = dst_ip, port2 = dst_port,
            key_protocol = proto, is_forward = True\<rparr>
      else \<lparr>ip1 = dst_ip, port1 = dst_port, ip2 = src_ip, port2 = src_port,
            key_protocol = proto, is_forward = False\<rparr>)"

text \<open>The tuple that \<^verbatim>\<open>__hash__\<close> and \<^verbatim>\<open>__eq__\<close> are computed from.\<close>

type_synonym key_tuple = "string \<times> int \<times> string \<times> int \<times> int"

definition FlowKey_tuple :: "FlowKey \<Rightarrow> key_tuple" where
  "FlowKey_tuple k = (ip1 k, port1 k, ip2 k, port2 k, key_protocol k)"

definition FlowKey_eq :: "FlowKey \<Rightarrow> FlowKey \<Rightarrow> bool" where
  "FlowKey_eq k other = (FlowKey_tuple k = FlowKey_tuple other)"

text \<open>\<^verbatim>\<open>__hash__\<close> applies Python's built-in tuple hash, here the parameter \<open>h\<close>.\<close>

definition FlowKey_hash :: "(key_tuple \<Rightarrow> int) \<Rightarrow> FlowKey \<Rightarrow> int" where
  "FlowKey_hash h k = h (FlowKey_tuple k)"

text \<open>The construction as the specification words it, for comparison: endpoints are
  (4-byte address, 16-bit port) pairs ordered lexicographically by byte value, the smaller
  pair comes first, and the direction bit says whether the source is the first pair.\<close>

fun bytes_lt :: "bytes \<Rightarrow> bytes \<Rightarrow> bool" where
  "bytes_lt [] [] = False"
| "bytes_lt [] (y # ys) = True"
| "bytes_lt (x # xs) [] = False"
| "bytes_lt (x # xs) (y # ys) = (if x = y then bytes_lt xs ys else unat x < unat y)"

definition spec_endpoint_lt :: "bytes \<times> int \<Rightarrow> bytes \<times> int \<Rightarrow> bool" where
  "spec_endpoint_lt a b =
     (if fst a \<noteq> fst b then bytes_lt (fst a) (fst b) else snd a < snd b)"

section \<open>FlowState\<close>

text \<open>The attributes of \<^verbatim>\<open>FlowState\<close>, under the source's names. The
  \<^verbatim>\<open>defaultdict(int)\<close> of flag counts is an association list in insertion order.\<close>

record FlowState =
  start_time :: "real option"
  last_time :: "real option"
  total_packets :: int
  fwd_packets :: int
  fwd_bytes :: int
  fwd_packet_lengths :: "int list"
  fwd_inter_arrival_times :: "real list"
  fwd_last_time :: "real option"
  bwd_packets :: int
  bwd_bytes :: int
  bwd_packet_lengths :: "int list"
  bwd_inter_arrival_times :: "real list"
  bwd_last_time :: "real option"
  all_packet_lengths :: "int list"
  all_inter_arrival_times :: "real list"
  last_packet_time :: "real option"
  tcp_flags_count :: "(int \<times> int) list"
  tcp_window_sizes :: "int list"
  active_periods :: "real list"
  idle_periods :: "real list"
  last_activity_time :: "real option"

definition FlowState_init :: FlowState where
  "FlowState_init =
     \<lparr>start_time = None, last_time = None, total_packets = 0,
      fwd_packets = 0, fwd_bytes = 0, fwd_packet_lengths = [],
      fwd_inter_arrival_times = [], fwd_last_time = None,
      bwd_packets = 0, bwd_bytes = 0, bwd_packet_lengths = [],
      bwd_inter_arrival_times = [], bwd_last_time = None,
      all_packet_lengths = [], all_inter_arrival_times = [], last_packet_time = None,
      tcp_flags_count = [], tcp_window_sizes = [],
      active_periods = [], idle_periods = [], last_activity_time = None\<rparr>"

text \<open>\<^verbatim>\<open>d[k] += 1\<close> on a \<^verbatim>\<open>defaultdict(int)\<close>: a missing key starts from 0.\<close>

fun incr :: "(int \<times> int) list \<Rightarrow> int \<Rightarrow> (int \<times> int) list" where
  "incr [] k = [(k, 1)]"
| "incr ((k', c) # rest) k = (if k' = k then (k', c + 1) # rest else (k', c) # incr rest k)"

text \<open>The five steps of \<^verbatim>\<open>FlowState.update\<close>, in the order of the source; each
  takes the state the previous one left.\<close>

definition init_timing :: "real \<Rightarrow> FlowState \<Rightarrow> FlowState" where
  "init_timing current_time fs =
     (if start_time fs = None
      then fs\<lparr>start_time := Some current_time, last_activity_time := Some current_time\<rparr>
      else fs)"

definition update_general :: "int \<Rightarrow> real \<Rightarrow> FlowState \<Rightarrow> FlowState" where
  "update_general packet_len current_time fs =
     (let fs1 = fs\<lparr>total_packets := total_packets fs + 1,
                      all_packet_lengths := all_packet_lengths fs @ [packet_len],
                      last_time := Some current_time\<rparr>;
          fs2 = (case last_packet_time fs1 of
                   None \<Rightarrow> fs1
                 | Some t \<Rightarrow> fs1\<lparr>all_inter_arrival_times :=
                                    all_inter_arrival_times fs1 @ [current_time - t]\<rparr>)
      in fs2\<lparr>last_packet_time := Some current_time\<rparr>)"

definition update_direction :: "int \<Rightarrow> real \<Rightarrow> bool \<Rightarrow> FlowState \<Rightarrow> FlowState" where
  "update_direction packet_len current_time forward fs =
     (if forward then
        (let fs1 = fs\<lparr>fwd_packets := fwd_packets fs + 1,
                         fwd_bytes := fwd_bytes fs + packet_len,
                         fwd_packet_lengths := fwd_packet_lengths fs @ [packet_len]\<rparr>;
             fs2 = (case fwd_last_time fs1 of
                      None \<Rightarrow> fs1
                    | Some t \<Rightarrow> fs1\<lparr>fwd_inter_arrival_times :=
                                       fwd_inter_arrival_times fs1 @ [current_time - t]\<rparr>)
         in fs2\<lparr>fwd_last_time := Some current_time\<rparr>)
      else
        (let fs1 = fs\<lparr>bwd_packets := bwd_packets fs + 1,
                         bwd_bytes := bwd_bytes fs + packet_len,
                         bwd_packet_lengths := bwd_packet_lengths fs @ [packet_len]\<rparr>;
             fs2 = (case bwd_last_time fs1 of
                      None \<Rightarrow> fs1
                    | Some t \<Rightarrow> fs1\<lparr>bwd_inter_arrival_times :=
                                       bwd_inter_arrival_times fs1 @ [current_time - t]\<rparr>)
         in fs2\<lparr>bwd_last_time := Some current_time\<rparr>))"

definition update_tcp :: "int \<Rightarrow> int \<Rightarrow> FlowState \<Rightarrow> FlowState" where
  "update_tcp flags window fs =
     (let fs1 = (if flags > 0 then fs\<lparr>tcp_flags_count := incr (tcp_flags_count fs) flags\<rparr>
                 else fs)
      in if window > 0 then fs1\<lparr>tcp_window_sizes := tcp_window_sizes fs1 @ [window]\<rparr>
         else fs1)"

definition update_activity :: "real \<Rightarrow> FlowState \<Rightarrow> FlowState" where
  "update_activity current_time fs =
     (let fs1 = (case last_activity_time fs of
                   None \<Rightarrow> fs
                 | Some t \<Rightarrow>
                     (let idle_time = current_time - t
                      in if idle_time > 1 then fs\<lparr>idle_periods := idle_periods fs @ [idle_time]\<rparr>
                         else fs))
      in fs1\<lparr>last_activity_time := Some current_time\<rparr>)"

text \<open>\<^verbatim>\<open>FlowState.update(packet_length, timestamp, is_forward, tcp_flags, tcp_window)\<close>.\<close>

definition update :: "FlowState \<Rightarrow> int \<Rightarrow> real \<Rightarrow> bool \<Rightarrow> int \<Rightarrow> int \<Rightarrow> FlowState" where
  "update fs packet_len ts forward flags window =
     update_activity ts
       (update_tcp flags window
         (update_direction packet_len ts forward
           (update_general packet_len ts
             (init_timing ts fs))))"

text \<open>One call of \<^verbatim>\<open>update\<close>, as its argument tuple, and a sequence of calls applied
  from left to right.\<close>

type_synonym update_call = "int \<times> real \<times> bool \<times> int \<times> int"

definition call_ts :: "update_call \<Rightarrow> real" where
  "call_ts c = fst (snd c)"

definition apply_call :: "FlowState \<Rightarrow> update_call \<Rightarrow> FlowState" where
  "apply_call fs c =
     (case c of (packet_len, ts, forward, flags, window) \<Rightarrow>
        update fs packet_len ts forward flags window)"

definition updates :: "FlowState \<Rightarrow> update_call list \<Rightarrow> FlowState" where
  "updates fs calls = foldl apply_call fs calls"

section \<open>Flow statistics\<close>

text \<open>\<^verbatim>\<open>statistics.mean\<close>, \<^verbatim>\<open>statistics.variance\<close> (sample variance, divisor
  \<open>n - 1\<close>) and \<^verbatim>\<open>statistics.stdev\<close> raise \<^verbatim>\<open>StatisticsError\<close> on too few
  data points; \<^verbatim>\<open>min\<close> and \<^verbatim>\<open>max\<close> raise \<^verbatim>\<open>ValueError\<close> on an empty
  list; \<^verbatim>\<open>/\<close> raises \<^verbatim>\<open>ZeroDivisionError\<close>.\<close>

definition statistics_mean :: "real list \<Rightarrow> error + real" where
  "statistics_mean xs =
     (if xs = [] then Inl StatisticsError else Inr (sum_list xs / real (length xs)))"

definition statistics_variance :: "real list \<Rightarrow> error + real" where
  "statistics_variance xs =
     (if length xs < 2 then Inl StatisticsError
      else (let m = sum_list xs / real (length xs)
            in Inr (sum_list (map (\<lambda>x. (x - m)\<^sup>2) xs) / real (length xs - 1))))"

definition statistics_stdev :: "real list \<Rightarrow> error + real" where
  "statistics_stdev xs =
     (case statistics_variance xs of Inl e \<Rightarrow> Inl e | Inr v \<Rightarrow> Inr (sqrt v))"

definition py_min :: "int list \<Rightarrow> error + int" where
  "py_min xs = (case xs of [] \<Rightarrow> Inl ValueError | x # rest \<Rightarrow> Inr (fold min rest x))"

definition py_max :: "int list \<Rightarrow> error + int" where
  "py_max xs = (case xs of [] \<Rightarrow> Inl ValueError | x # rest \<Rightarrow> Inr (fold max rest x))"

definition truediv :: "real \<Rightarrow> real \<Rightarrow> error + real" where
  "truediv a b = (if b = 0 then Inl ZeroDivisionError else Inr (a / b))"

text \<open>Sequencing of statements that may raise: the first exception ends the block.\<close>

definition and_then :: "error + 'a \<Rightarrow> ('a \<Rightarrow> error + 'b) \<Rightarrow> error + 'b" where
  "and_then m f = (case m of Inl e \<Rightarrow> Inl e | Inr x \<Rightarrow> f x)"

text \<open>The dictionary \<^verbatim>\<open>stats\<close> that \<^verbatim>\<open>calculate_flow_statistics\<close> returns; the key
  \<^verbatim>\<open>'k'\<close> is the field \<open>s_k\<close>.\<close>

record flow_stats =
  s_flow_duration :: real
  s_total_fwd_packets :: int
  s_total_bwd_packets :: int
  s_total_length_fwd_packets :: int
  s_total_length_bwd_packets :: int
  s_packet_length_mean :: real
  s_packet_length_std :: real
  s_packet_length_min :: int
  s_packet_length_max :: int
  s_packet_length_variance :: real
  s_fwd_packet_length_mean :: real
  s_flow_bytes_per_second :: real
  s_flow_packets_per_second :: real
  s_fwd_packets_per_second :: real
  s_bwd_packets_per_second :: real
  s_flow_inter_arrival_time_mean :: real
  s_flow_inter_arrival_time_std :: real
  s_fwd_inter_arrival_time_mean :: real
  s_bwd_inter_arrival_time_mean :: real
  s_active_mean :: real
  s_active_std :: real
  s_idle_mean :: real
  s_idle_std :: real
  s_tcp_window_size_mean :: real
  s_tcp_flags_count :: int
  s_flow_bytes_total :: int

text \<open>The blocks of \<^verbatim>\<open>calculate_flow_statistics\<close>. Each is one \<^verbatim>\<open>if\<close> statement
  of the source with its guards.\<close>

text \<open>Lines 312-315: \<^verbatim>\<open>if flow_state.start_time\<close> tests truthiness.\<close>

definition flow_duration_of :: "FlowState \<Rightarrow> real \<Rightarrow> real" where
  "flow_duration_of fs current_time =
     (if truthy (start_time fs) then current_time - the (start_time fs) else 0)"

text \<open>Lines 324-335: mean, std, min, max, variance of the packet lengths.\<close>

definition packet_length_stats :: "int list \<Rightarrow> error + (real \<times> real \<times> int \<times> int \<times> real)" where
  "packet_length_stats xs =
     (if xs \<noteq> [] then
        and_then (statistics_mean (map real_of_int xs)) (\<lambda>m.
        and_then (if length xs > 1 then statistics_stdev (map real_of_int xs) else Inr 0) (\<lambda>sd.
        and_then (py_min xs) (\<lambda>mn.
        and_then (py_max xs) (\<lambda>mx.
        and_then (if length xs > 1 then statistics_variance (map real_of_int xs) else Inr 0) (\<lambda>v.
        Inr (m, sd, mn, mx, v))))))
      else Inr (0, 0, 0, 0, 0))"

text \<open>Lines 338-341, 365-373, 391-394: a mean, or 0 for an empty list.\<close>

definition mean_stats :: "real list \<Rightarrow> error + real" where
  "mean_stats xs = (if xs \<noteq> [] then statistics_mean xs else Inr 0)"

text \<open>Lines 358-363, 376-388: a mean and a standard deviation, or 0.\<close>

definition mean_std_stats :: "real list \<Rightarrow> error + (real \<times> real)" where
  "mean_std_stats xs =
     (if xs \<noteq> [] then
        and_then (statistics_mean xs) (\<lambda>m.
        and_then (if length xs > 1 then statistics_stdev xs else Inr 0) (\<lambda>sd.
        Inr (m, sd)))
      else Inr (0, 0))"

text \<open>Lines 344-355: the four rates.\<close>

definition rate_stats :: "FlowState \<Rightarrow> real \<Rightarrow> error + (real \<times> real \<times> real \<times> real)" where
  "rate_stats fs duration =
     (if duration > 0 then
        (let total_bytes = fwd_bytes fs + bwd_bytes fs in
         and_then (truediv (real_of_int total_bytes) duration) (\<lambda>bytes_per_second.
         and_then (truediv (real_of_int (total_packets fs)) duration) (\<lambda>packets_per_second.
         and_then (truediv (real_of_int (fwd_packets fs)) duration) (\<lambda>fwd_per_second.
         and_then (truediv (real_of_int (bwd_packets fs)) duration) (\<lambda>bwd_per_second.
         Inr (bytes_per_second, packets_per_second, fwd_per_second, bwd_per_second))))))
      else Inr (0, 0, 0, 0))"

text \<open>\<^verbatim>\<open>PacketParser.calculate_flow_statistics(flow_state, current_time)\<close>.\<close>

definition calculate_flow_statistics :: "FlowState \<Rightarrow> real \<Rightarrow> error + flow_stats" where
  "calculate_flow_statistics fs current_time =
     (let duration = flow_duration_of fs current_time in
      and_then (packet_length_stats (all_packet_lengths fs)) (\<lambda>(pl_mean, pl_std, pl_min, pl_max, pl_var).
      and_then (mean_stats (map real_of_int (fwd_packet_lengths fs))) (\<lambda>fwd_pl_mean.
      and_then (rate_stats fs duration) (\<lambda>(bps, pps, fwd_pps, bwd_pps).
      and_then (mean_std_stats (all_inter_arrival_times fs)) (\<lambda>(iat_mean, iat_std).
      and_then (mean_stats (fwd_inter_arrival_times fs)) (\<lambda>fwd_iat_mean.
      and_then (mean_stats (bwd_inter_arrival_times fs)) (\<lambda>bwd_iat_mean.
      and_then (mean_std_stats (active_periods fs)) (\<lambda>(act_mean, act_std).
      and_then (mean_std_stats (idle_periods fs)) (\<lambda>(idl_mean, idl_std).
      and_then (mean_stats (map real_of_int (tcp_window_sizes fs))) (\<lambda>window_mean.
      Inr \<lparr>s_flow_duration = duration,
           s_total_fwd_packets = fwd_packets fs,
           s_total_bwd_packets = bwd_packets fs,
           s_total_length_fwd_packets = fwd_bytes fs,
           s_total_length_bwd_packets = bwd_bytes fs,
           s_packet_length_mean = pl_mean,
           s_packet_length_std = pl_std,
           s_packet_length_min = pl_min,
           s_packet_length_max = pl_max,
           s_packet_length_variance = pl_var,
           s_fwd_packet_length_mean = fwd_pl_mean,
           s_flow_bytes_per_second = bps,
           s_flow_packets_per_second = pps,
           s_fwd_packets_per_second = fwd_pps,
           s_bwd_packets_per_second = bwd_pps,
           s_flow_inter_arrival_time_mean = iat_mean,
           s_flow_inter_arrival_time_std = iat_std,
           s_fwd_inter_arrival_time_mean = fwd_iat_mean,
           s_bwd_inter_arrival_time_mean = bwd_iat_mean,
           s_active_mean = act_mean,
           s_active_std = act_std,
           s_idle_mean = idl_mean,
           s_idle_std = idl_std,
           s_tcp_window_size_mean = window_mean,
           s_tcp_flags_count = sum_list (map snd (tcp_flags_count fs)),
           s_flow_bytes_total = fwd_bytes fs + bwd_bytes fs\<rparr>))))))))))"

section \<open>Header parsing\<close>

text \<open>The attributes of \<^verbatim>\<open>NetworkFeatures\<close> with the defaults of its constructor. The
  attribute \<^verbatim>\<open>tcp_flags_count\<close> is the field \<open>f_tcp_flags_count\<close>, since
  \<^verbatim>\<open>FlowState\<close> has an attribute of the same name.\<close>

record NetworkFeatures =
  src_ip :: string
  dst_ip :: string
  src_port :: int
  dst_port :: int
  protocol :: int
  packet_length :: int
  header_length :: int
  ttl :: int
  tos :: int
  tcp_flags :: int
  tcp_window :: int
  tcp_seq :: int
  tcp_ack :: int
  tcp_flag_fin :: int
  tcp_flag_syn :: int
  tcp_flag_rst :: int
  tcp_flag_psh :: int
  tcp_flag_ack :: int
  tcp_flag_urg :: int
  timestamp :: int
  flow_duration :: real
  total_fwd_packets :: int
  total_bwd_packets :: int
  total_length_fwd_packets :: int
  total_length_bwd_packets :: int
  packet_length_mean :: real
  packet_length_std :: real
  packet_length_min :: int
  packet_length_max :: int
  packet_length_variance :: real
  fwd_packet_length_mean :: real
  flow_bytes_per_second :: real
  flow_packets_per_second :: real
  fwd_packets_per_second :: real
  bwd_packets_per_second :: real
  flow_inter_arrival_time_mean :: real
  flow_inter_arrival_time_std :: real
  fwd_inter_arrival_time_mean :: real
  bwd_inter_arrival_time_mean :: real
  active_mean :: real
  active_std :: real
  idle_mean :: real
  idle_std :: real
  tcp_window_size_mean :: real
  f_tcp_flags_count :: int
  flow_bytes_total :: int
  label :: string

definition NetworkFeatures_init :: NetworkFeatures where
  "NetworkFeatures_init =
     \<lparr>src_ip = [], dst_ip = [],
      src_port = 0,
      dst_port = 0,
      protocol = 0,
      packet_length = 0,
      header_length = 0,
      ttl = 0,
      tos = 0,
      tcp_flags = 0,
      tcp_window = 0,
      tcp_seq = 0,
      tcp_ack = 0,
      tcp_flag_fin = 0,
      tcp_flag_syn = 0,
      tcp_flag_rst = 0,
      tcp_flag_psh = 0,
      tcp_flag_ack = 0,
      tcp_flag_urg = 0,
      timestamp = 0,
      flow_duration = 0,
      total_fwd_packets = 0,
      total_bwd_packets = 0,
      total_length_fwd_packets = 0,
      total_length_bwd_packets = 0,
      packet_length_mean = 0,
      packet_length_std = 0,
      packet_length_min = 0,
      packet_length_max = 0,
      packet_length_variance = 0,
      fwd_packet_length_mean = 0,
      flow_bytes_per_second = 0,
      flow_packets_per_second = 0,
      fwd_packets_per_second = 0,
      bwd_packets_per_second = 0,
      flow_inter_arrival_time_mean = 0,
      flow_inter_arrival_time_std = 0,
      fwd_inter_arrival_time_mean = 0,
      bwd_inter_arrival_time_mean = 0,
      active_mean = 0,
      active_std = 0,
      idle_mean = 0,
      idle_std = 0,
      tcp_window_size_mean = 0,
      f_tcp_flags_count = 0,
      flow_bytes_total = 0,
      label = ''BENIGN''\<rparr>"

text \<open>\<^verbatim>\<open>struct.unpack(fmt, data)\<close> raises \<^verbatim>\<open>struct.error\<close> unless the data have the
  size of the format; the fields are then read at their offsets.\<close>

definition struct_unpack :: "nat \<Rightarrow> bytes \<Rightarrow> error + bytes" where
  "struct_unpack size_of_fmt b = (if length b \<noteq> size_of_fmt then Inl StructError else Inr b)"

text \<open>\<^verbatim>\<open>parse_ethernet_header\<close>: \<^verbatim>\<open>(None, None, None)\<close> for a short frame, otherwise
  the two MAC addresses as text and the EtherType.\<close>

definition parse_ethernet_header ::
  "bytes \<Rightarrow> error + (string option \<times> string option \<times> int option)" where
  "parse_ethernet_header packet_data =
     (if length packet_data < 14 then Inr (None, None, None)
      else and_then (struct_unpack 14 (byte_slice packet_data 0 14)) (\<lambda>eth_header.
        (let dest_mac = join '':'' (map hex2 (byte_slice eth_header 0 6));
             src_mac = join '':'' (map hex2 (byte_slice eth_header 6 12));
             eth_type = u16 eth_header 12
         in Inr (Some dest_mac, Some src_mac, Some eth_type))))"

text \<open>The dictionary \<^verbatim>\<open>ip_info\<close>; the key \<^verbatim>\<open>'k'\<close> is the field \<open>ipi_k\<close>.\<close>

record ip_info =
  ipi_version :: int
  ipi_header_length :: int
  ipi_tos :: int
  ipi_total_length :: int
  ipi_ttl :: int
  ipi_protocol :: int
  ipi_src_ip :: string
  ipi_dst_ip :: string

text \<open>\<^verbatim>\<open>parse_ip_header(packet_data, offset)\<close>: \<^verbatim>\<open>(None, None)\<close> when fewer than 20
  bytes follow the offset, otherwise \<^verbatim>\<open>ip_info\<close> and the offset of the transport
  header.\<close>

definition parse_ip_header :: "bytes \<Rightarrow> nat \<Rightarrow> error + (ip_info \<times> nat) option" where
  "parse_ip_header packet_data offset =
     (if length packet_data < offset + 20 then Inr None
      else and_then (struct_unpack 20 (byte_slice packet_data offset (offset + 20))) (\<lambda>ip_header.
        (let version_ihl = u8 ip_header 0;
             version = drop_bit 4 version_ihl;
             ihl = version_ihl AND 0xF;
             header_len = ihl * 4;
             tos_field = u8 ip_header 1;
             total_length = u16 ip_header 2;
             ttl_field = u8 ip_header 8;
             proto = u8 ip_header 9
         in and_then (inet_ntoa (byte_slice ip_header 12 16)) (\<lambda>src.
            and_then (inet_ntoa (byte_slice ip_header 16 20)) (\<lambda>dst.
            Inr (Some (\<lparr>ipi_version = version, ipi_header_length = header_len,
                          ipi_tos = tos_field, ipi_total_length = total_length,
                          ipi_ttl = ttl_field, ipi_protocol = proto,
                          ipi_src_ip = src, ipi_dst_ip = dst\<rparr>,
                        offset + nat header_len)))))))"

text \<open>The dictionary \<^verbatim>\<open>tcp_info\<close>; the key \<^verbatim>\<open>'k'\<close> is the field \<open>tci_k\<close>. The
  empty dictionary, which is false in a condition, is \<^term>\<open>None\<close>.\<close>

record tcp_info =
  tci_src_port :: int
  tci_dst_port :: int
  tci_seq_num :: int
  tci_ack_num :: int
  tci_flags :: int
  tci_window :: int
  tci_flag_fin :: int
  tci_flag_syn :: int
  tci_flag_rst :: int
  tci_flag_psh :: int
  tci_flag_ack :: int
  tci_flag_urg :: int

definition parse_tcp_header :: "bytes \<Rightarrow> nat \<Rightarrow> error + tcp_info option" where
  "parse_tcp_header packet_data offset =
     (if length packet_data < offset + 20 then Inr None
      else and_then (struct_unpack 20 (byte_slice packet_data offset (offset + 20))) (\<lambda>tcp_header.
        (let flags = u8 tcp_header 13
         in Inr (Some \<lparr>tci_src_port = u16 tcp_header 0,
                        tci_dst_port = u16 tcp_header 2,
                        tci_seq_num = u32 tcp_header 4,
                        tci_ack_num = u32 tcp_header 8,
                        tci_flags = flags,
                        tci_window = u16 tcp_header 14,
                        tci_flag_fin = flags AND 0x01,
                        tci_flag_syn = drop_bit 1 (flags AND 0x02),
                        tci_flag_rst = drop_bit 2 (flags AND 0x04),
                        tci_flag_psh = drop_bit 3 (flags AND 0x08),
                        tci_flag_ack = drop_bit 4 (flags AND 0x10),
                        tci_flag_urg = drop_bit 5 (flags AND 0x20)\<rparr>))))"

record udp_info =
  udi_src_port :: int
  udi_dst_port :: int
  udi_length :: int
  udi_checksum :: int

definition parse_udp_header :: "bytes \<Rightarrow> nat \<Rightarrow> error + udp_info option" where
  "parse_udp_header packet_data offset =
     (if length packet_data < offset + 8 then Inr None
      else and_then (struct_unpack 8 (byte_slice packet_data offset (offset + 8))) (\<lambda>udp_header.
        Inr (Some \<lparr>udi_src_port = u16 udp_header 0, udi_dst_port = u16 udp_header 2,
                     udi_length = u16 udp_header 4, udi_checksum = u16 udp_header 6\<rparr>)))"

section \<open>The flow table and parse\_packet\<close>

text \<open>The class attributes of \<^verbatim>\<open>PacketParser\<close>. The dictionary \<^verbatim>\<open>flow_states\<close> is
  keyed by \<^verbatim>\<open>FlowKey\<close> objects, which hash and compare by \<^const>\<open>FlowKey_tuple\<close>.\<close>

record parser_state =
  flow_states :: "key_tuple \<rightharpoonup> FlowState"
  last_cleanup :: real

text \<open>\<^verbatim>\<open>cleanup_old_flows\<close>; \<open>current_time\<close> is what \<^verbatim>\<open>time.time()\<close> returns in
  the call. The condition of line 205 tests the truthiness of \<^verbatim>\<open>last_time\<close> first.\<close>

definition to_remove :: "real \<Rightarrow> FlowState \<Rightarrow> bool" where
  "to_remove cutoff_time flow_state =
     (truthy (last_time flow_state) \<and> the (last_time flow_state) < cutoff_time)"

definition cleanup_old_flows :: "real \<Rightarrow> parser_state \<Rightarrow> parser_state" where
  "cleanup_old_flows current_time st =
     (if current_time - last_cleanup st > 60 then
        (let cutoff_time = current_time - 300
         in st\<lparr>flow_states :=
                  (\<lambda>flow_key. case flow_states st flow_key of
                                None \<Rightarrow> None
                              | Some flow_state \<Rightarrow>
                                  if to_remove cutoff_time flow_state then None
                                  else Some flow_state),
                last_cleanup := current_time\<rparr>)
      else st)"

text \<open>A Python \<^verbatim>\<open>float\<close>: a finite double, given by the real number it denotes, an
  infinity or NaN.\<close>

datatype pyfloat = Finite real | PosInf | NegInf | NaN

text \<open>\<^verbatim>\<open>int(x)\<close> of a float truncates a finite value toward zero, and raises
  \<^verbatim>\<open>OverflowError\<close> for an infinity and \<^verbatim>\<open>ValueError\<close> for NaN.\<close>

definition py_int :: "real \<Rightarrow> int" where
  "py_int x = (if x \<ge> 0 then \<lfloor>x\<rfloor> else \<lceil>x\<rceil>)"

definition int_of_float :: "pyfloat \<Rightarrow> error + int" where
  "int_of_float x =
     (case x of
        Finite r \<Rightarrow> Inr (py_int r)
      | PosInf \<Rightarrow> Inl OverflowError
      | NegInf \<Rightarrow> Inl OverflowError
      | NaN \<Rightarrow> Inl ValueError)"

text \<open>A rounding for the examples: exact inside the range of doubles, an infinity outside.
  It is the rounding of doubles at every real that is itself a double and at every real
  beyond \<open>2 ^ 1024\<close>.\<close>

definition exact_in_range :: "real \<Rightarrow> pyfloat" where
  "exact_in_range x =
     (if x \<ge> 2 ^ 1024 then PosInf else if x \<le> - (2 ^ 1024) then NegInf else Finite x)"

text \<open>Lines 427-454 of \<^verbatim>\<open>parse_packet\<close>: the transport layer. The result is the
  features with the transport fields, and the local variables \<^verbatim>\<open>tcp_flags\<close> and
  \<^verbatim>\<open>tcp_window\<close>.\<close>

definition parse_transport ::
  "bytes \<Rightarrow> ip_info \<Rightarrow> nat \<Rightarrow> NetworkFeatures \<Rightarrow> error + (NetworkFeatures \<times> int \<times> int)" where
  "parse_transport packet_data info tcp_offset features =
     (if ipi_protocol info = 6 then
        and_then (parse_tcp_header packet_data tcp_offset) (\<lambda>r.
          case r of
            None \<Rightarrow> Inr (features, 0, 0)
          | Some t \<Rightarrow>
              Inr (features\<lparr>src_port := tci_src_port t, dst_port := tci_dst_port t,
                            tcp_seq := tci_seq_num t, tcp_ack := tci_ack_num t,
                            tcp_flags := tci_flags t, tcp_window := tci_window t,
                            tcp_flag_fin := tci_flag_fin t, tcp_flag_syn := tci_flag_syn t,
                            tcp_flag_rst := tci_flag_rst t, tcp_flag_psh := tci_flag_psh t,
                            tcp_flag_ack := tci_flag_ack t, tcp_flag_urg := tci_flag_urg t\<rparr>,
                   tci_flags t, tci_window t))
      else if ipi_protocol info = 17 then
        and_then (parse_udp_header packet_data tcp_offset) (\<lambda>r.
          case r of
            None \<Rightarrow> Inr (features, 0, 0)
          | Some u \<Rightarrow>
              Inr (features\<lparr>src_port := udi_src_port u, dst_port := udi_dst_port u\<rparr>, 0, 0))
      else Inr (features, 0, 0))"

text \<open>Lines 456-507: the flow key, the flow table entry (created when the key is new),
  its update and the statistics copied into the features. The table keeps the update also
  when the statistics raise.\<close>

definition track_flow ::
  "NetworkFeatures \<Rightarrow> real \<Rightarrow> int \<Rightarrow> int \<Rightarrow> parser_state
     \<Rightarrow> (error + NetworkFeatures) \<times> parser_state" where
  "track_flow features ts flags window st =
     (let flow_key = FlowKey_init (src_ip features) (dst_ip features)
                       (src_port features) (dst_port features) (protocol features);
          k = FlowKey_tuple flow_key;
          existing = (case flow_states st k of None \<Rightarrow> FlowState_init | Some fs \<Rightarrow> fs);
          flow_state = update existing (packet_length features) ts (is_forward flow_key)
                         flags window;
          st' = st\<lparr>flow_states := (flow_states st)(k \<mapsto> flow_state)\<rparr>
      in case calculate_flow_statistics flow_state ts of
           Inl e \<Rightarrow> (Inl e, st')
         | Inr flow_stats \<Rightarrow>
             (Inr (features\<lparr>
               flow_duration := s_flow_duration flow_stats,
               total_fwd_packets := s_total_fwd_packets flow_stats,
               total_bwd_packets := s_total_bwd_packets flow_stats,
               total_length_fwd_packets := s_total_length_fwd_packets flow_stats,
               total_length_bwd_packets := s_total_length_bwd_packets flow_stats,
               packet_length_mean := s_packet_length_mean flow_stats,
               packet_length_std := s_packet_length_std flow_stats,
               packet_length_min := s_packet_length_min flow_stats,
               packet_length_max := s_packet_length_max flow_stats,
               packet_length_variance := s_packet_length_variance flow_stats,
               fwd_packet_length_mean := s_fwd_packet_length_mean flow_stats,
               flow_bytes_per_second := s_flow_bytes_per_second flow_stats,
               flow_packets_per_second := s_flow_packets_per_second flow_stats,
               fwd_packets_per_second := s_fwd_packets_per_second flow_stats,
               bwd_packets_per_second := s_bwd_packets_per_second flow_stats,
               flow_inter_arrival_time_mean := s_flow_inter_arrival_time_mean flow_stats,
               flow_inter_arrival_time_std := s_flow_inter_arrival_time_std flow_stats,
               fwd_inter_arrival_time_mean := s_fwd_inter_arrival_time_mean flow_stats,
               bwd_inter_arrival_time_mean := s_bwd_inter_arrival_time_mean flow_stats,
               active_mean := s_active_mean flow_stats,
               active_std := s_active_std flow_stats,
               idle_mean := s_idle_mean flow_stats,
               idle_std := s_idle_std flow_stats,
               tcp_window_size_mean := s_tcp_window_size_mean flow_stats,
               f_tcp_flags_count := s_tcp_flags_count flow_stats,
               flow_bytes_total := s_flow_bytes_total flow_stats\<rparr>),
              st'))"

text \<open>The body of the \<^verbatim>\<open>try\<close> statement of \<^verbatim>\<open>parse_packet\<close> (lines 412-507). It
  returns the exception raised, if any, with the features and the table as they are at that
  point.\<close>

definition try_body ::
  "bytes \<Rightarrow> real \<Rightarrow> NetworkFeatures \<Rightarrow> parser_state
     \<Rightarrow> error option \<times> NetworkFeatures \<times> parser_state" where
  "try_body packet_data ts features st =
     (case parse_ethernet_header packet_data of
        Inl e \<Rightarrow> (Some e, features, st)
      | Inr (dest_mac, src_mac, eth_type) \<Rightarrow>
          if eth_type = Some 0x0800 then
            (case parse_ip_header packet_data 14 of
               Inl e \<Rightarrow> (Some e, features, st)
             | Inr None \<Rightarrow> (None, features, st)
             | Inr (Some (info, tcp_offset)) \<Rightarrow>
                 (let features1 = features\<lparr>src_ip := ipi_src_ip info,
                                            dst_ip := ipi_dst_ip info,
                                            protocol := ipi_protocol info,
                                            ttl := ipi_ttl info,
                                            tos := ipi_tos info,
                                            header_length := ipi_header_length info\<rparr>
                  in case parse_transport packet_data info tcp_offset features1 of
                       Inl e \<Rightarrow> (Some e, features1, st)
                     | Inr (features2, flags, window) \<Rightarrow>
                         (case track_flow features2 ts flags window st of
                            (Inl e, st') \<Rightarrow> (Some e, features2, st')
                          | (Inr features3, st') \<Rightarrow> (None, features3, st'))))
          else (None, features, st))"

text \<open>\<^verbatim>\<open>PacketParser.parse_packet(packet_data, timestamp)\<close> on the parser state \<open>st\<close>;
  \<open>now\<close> is the clock that \<^verbatim>\<open>cleanup_old_flows\<close> reads. Line 405,
  \<^verbatim>\<open>int(timestamp * 1000000)\<close>, stands before the \<^verbatim>\<open>try\<close> statement, so what it raises
  leaves the function. For a finite timestamp the product is rounded to a double by the
  parameter \<open>fl\<close>, the rounding of float arithmetic, which gives an infinity when the
  product is out of range; an infinity times 1000000 is that infinity and NaN times 1000000
  is NaN, and \<^verbatim>\<open>int\<close> raises for them. The \<^verbatim>\<open>except\<close> clause sets the label and keeps
  what the body had assigned.\<close>

definition parse_packet ::
  "(real \<Rightarrow> pyfloat) \<Rightarrow> parser_state \<Rightarrow> bytes \<Rightarrow> pyfloat \<Rightarrow> real
     \<Rightarrow> error + NetworkFeatures \<times> parser_state" where
  "parse_packet fl st packet_data ts now =
     (case ts of
        Finite t \<Rightarrow>
          and_then (int_of_float (fl (t * 1000000))) (\<lambda>microseconds.
            (let features = NetworkFeatures_init\<lparr>timestamp := microseconds,
                                                 packet_length := int (length packet_data)\<rparr>;
                 st1 = cleanup_old_flows now st
             in case try_body packet_data t features st1 of
                  (Some e, features', st') \<Rightarrow>
                    Inr (features'\<lparr>label := ''PARSING_ERROR''\<rparr>, st')
                | (None, features', st') \<Rightarrow> Inr (features', st')))
      | PosInf \<Rightarrow> Inl OverflowError
      | NegInf \<Rightarrow> Inl OverflowError
      | NaN \<Rightarrow> Inl ValueError)"

section \<open>The capture loop\<close>

text \<open>How a call ends: it returns, it raises an exception that \<^verbatim>\<open>except Exception\<close>
  catches, or it raises one that only derives from \<^verbatim>\<open>BaseException\<close>
  (\<^verbatim>\<open>KeyboardInterrupt\<close>, \<^verbatim>\<open>SystemExit\<close>), which that clause lets through.\<close>

datatype ending = Returns | Raises_Exception | Raises_BaseException

text \<open>What the loop of \<^verbatim>\<open>DPDKPacketCapture.start_capture\<close> changes: the packet counter,
  the calls of \<^verbatim>\<open>free_packet\<close> and of the driver's \<^verbatim>\<open>rte_pktmbuf_free\<close> in the order
  they are made, the warnings logged, and the number of clock readings so far. Buffer
  handles are addresses.\<close>

record capture_state =
  packet_count :: int
  free_packet_calls :: "nat list"
  rte_pktmbuf_free_calls :: "nat list"
  warnings :: nat
  clock_reads :: nat

text \<open>\<^verbatim>\<open>DPDKWrapper.free_packet\<close>: the driver is called for a handle that is not null.\<close>

definition free_packet :: "nat \<Rightarrow> capture_state \<Rightarrow> capture_state" where
  "free_packet mbuf cs =
     (let cs1 = cs\<lparr>free_packet_calls := free_packet_calls cs @ [mbuf]\<rparr>
      in if mbuf \<noteq> 0
         then cs1\<lparr>rte_pktmbuf_free_calls := rte_pktmbuf_free_calls cs1 @ [mbuf]\<rparr>
         else cs1)"

text \<open>The body of the \<^verbatim>\<open>for\<close> loop (lines 104-129) for one handle. The parameters are
  the world the loop runs in: \<open>read_mbuf\<close> is \<^verbatim>\<open>RteMbuf.from_address\<close> followed by
  \<^verbatim>\<open>get_packet_data\<close> (an error when the first raises), \<open>time_time\<close> gives the
  clock reading of each call of \<^verbatim>\<open>time.time()\<close>, and \<open>callback\<close> is the user's
  callback with its own state \<open>u\<close>. The \<^verbatim>\<open>try\<close> block comes first, then the
  \<^verbatim>\<open>except Exception\<close> clause, then the \<^verbatim>\<open>finally\<close> clause.\<close>

definition process_mbuf ::
  "(nat \<Rightarrow> error + bytes) \<Rightarrow> (nat \<Rightarrow> real) \<Rightarrow> ('u \<Rightarrow> bytes \<Rightarrow> real \<Rightarrow> ending \<times> 'u)
     \<Rightarrow> capture_state \<times> 'u \<Rightarrow> nat \<Rightarrow> ending \<times> capture_state \<times> 'u" where
  "process_mbuf read_mbuf time_time callback s mbuf_ptr =
     (case s of (cs, u) \<Rightarrow>
      (let tried =
             (case read_mbuf mbuf_ptr of
                Inl e \<Rightarrow> (Raises_Exception, cs, u)
              | Inr packet_data \<Rightarrow>
                  if packet_data \<noteq> [] then
                    (let ts = time_time (clock_reads cs);
                         cs1 = cs\<lparr>clock_reads := clock_reads cs + 1\<rparr>
                     in case callback u packet_data ts of
                          (Returns, u') \<Rightarrow>
                            (Returns, cs1\<lparr>packet_count := packet_count cs1 + 1\<rparr>, u')
                        | (raised, u') \<Rightarrow> (raised, cs1, u'))
                  else (Returns, cs, u))
       in case tried of (e, cs2, u2) \<Rightarrow>
            (let handled =
                   (if e = Raises_Exception
                    then (Returns, cs2\<lparr>warnings := warnings cs2 + 1\<rparr>)
                    else (e, cs2))
             in case handled of (e', cs3) \<Rightarrow> (e', free_packet mbuf_ptr cs3, u2))))"

text \<open>The \<^verbatim>\<open>for mbuf_ptr in mbufs\<close> loop: an exception that the body lets through ends
  it.\<close>

fun process_burst ::
  "(nat \<Rightarrow> error + bytes) \<Rightarrow> (nat \<Rightarrow> real) \<Rightarrow> ('u \<Rightarrow> bytes \<Rightarrow> real \<Rightarrow> ending \<times> 'u)
     \<Rightarrow> capture_state \<times> 'u \<Rightarrow> nat list \<Rightarrow> ending \<times> capture_state \<times> 'u" where
  "process_burst read_mbuf time_time callback s [] = (Returns, fst s, snd s)"
| "process_burst read_mbuf time_time callback s (mbuf_ptr # mbufs) =
     (case process_mbuf read_mbuf time_time callback s mbuf_ptr of
        (Returns, cs', u') \<Rightarrow> process_burst read_mbuf time_time callback (cs', u') mbufs
      | (raised, cs', u') \<Rightarrow> (raised, cs', u'))"

section \<open>Properties of FlowKey\<close>

text \<open>The order on strings and on endpoint pairs is strict and total: of two different
  values exactly one is smaller.\<close>

lemma str_lt_iff: "str_lt a b = (a \<noteq> b \<and> \<not> str_lt b a)"
proof (induction a b rule: str_lt.induct)
  case (4 x xs y ys)
  have "x \<noteq> y \<Longrightarrow> (of_char x :: nat) \<noteq> of_char y" by simp
  with 4 show ?case by (auto simp: not_less le_less)
qed simp_all

lemma tuple_lt_iff: "tuple_lt a b = (a \<noteq> b \<and> \<not> tuple_lt b a)"
  unfolding tuple_lt_def using str_lt_iff [of "fst a" "fst b"]
  by (cases a; cases b) auto

text \<open>
  Claim C3, as the code has it. \<^verbatim>\<open>FlowKey\<close> compares \<open>(src_ip, src_port)\<close> with
  \<open>(dst_ip, dst_port)\<close> as Python tuples of a dotted-decimal string and an integer: the
  addresses are compared as text, character by character, and the ports only when the
  addresses are equal. The direction bit is true exactly when the source pair is strictly
  smaller; then the source pair is \<open>(ip1, port1)\<close> and the destination pair is
  \<open>(ip2, port2)\<close>, otherwise the other way round. The second pair is never smaller than
  the first. When the two pairs differ, the direction bit is true if and only if the
  source pair equals \<open>(ip1, port1)\<close>.
\<close>

theorem FlowKey_init_canonical:
  "is_forward (FlowKey_init sip dip sport dport proto)
     = tuple_lt (sip, sport) (dip, dport)
   \<and> (ip1 (FlowKey_init sip dip sport dport proto),
       port1 (FlowKey_init sip dip sport dport proto))
     = (if tuple_lt (sip, sport) (dip, dport)
        then (sip, sport) else (dip, dport))
   \<and> (ip2 (FlowKey_init sip dip sport dport proto),
       port2 (FlowKey_init sip dip sport dport proto))
     = (if tuple_lt (sip, sport) (dip, dport)
        then (dip, dport) else (sip, sport))
   \<and> key_protocol (FlowKey_init sip dip sport dport proto) = proto
   \<and> \<not> tuple_lt (ip2 (FlowKey_init sip dip sport dport proto),
                  port2 (FlowKey_init sip dip sport dport proto))
                 (ip1 (FlowKey_init sip dip sport dport proto),
                  port1 (FlowKey_init sip dip sport dport proto))
   \<and> ((sip, sport) \<noteq> (dip, dport) \<longrightarrow>
        is_forward (FlowKey_init sip dip sport dport proto)
          = ((sip, sport)
              = (ip1 (FlowKey_init sip dip sport dport proto),
                 port1 (FlowKey_init sip dip sport dport proto))))"
proof (cases "tuple_lt (sip, sport) (dip, dport)")
  case True
  then have "\<not> tuple_lt (dip, dport) (sip, sport)"
    using tuple_lt_iff [of "(sip, sport)" "(dip, dport)"] by simp
  with True show ?thesis by (simp add: FlowKey_init_def)
next
  case False
  then show ?thesis by (auto simp: FlowKey_init_def)
qed

text \<open>The theorem at the endpoints 9.0.0.1:80 and 10.0.0.2:443.\<close>

theorem FlowKey_init_canonical_witness:
  "is_forward (FlowKey_init ''9.0.0.1'' ''10.0.0.2'' 80 443 6) = False
   \<and> ip1 (FlowKey_init ''9.0.0.1'' ''10.0.0.2'' 80 443 6) = ''10.0.0.2''
   \<and> port1 (FlowKey_init ''9.0.0.1'' ''10.0.0.2'' 80 443 6) = 443
   \<and> ip2 (FlowKey_init ''9.0.0.1'' ''10.0.0.2'' 80 443 6) = ''9.0.0.1''
   \<and> port2 (FlowKey_init ''9.0.0.1'' ''10.0.0.2'' 80 443 6) = 80
   \<and> key_protocol (FlowKey_init ''9.0.0.1'' ''10.0.0.2'' 80 443 6) = 6"
proof -
  have lt: "tuple_lt (''9.0.0.1'', 80) (''10.0.0.2'', 443) = False"
    by (simp add: tuple_lt_def)
  show ?thesis
    using FlowKey_init_canonical [of "''9.0.0.1''" "''10.0.0.2''" 80 443 6]
    by (simp add: lt)
qed

text \<open>
  Claim C3 as stated fails twice. As 4-byte addresses 9.0.0.1 is below 10.0.0.2, but
  as text \<open>''10.0.0.2''\<close> is below \<open>''9.0.0.1''\<close>, so the code makes 10.0.0.2:80 the first
  pair and the packet from 9.0.0.1:80 a backward one. And for a packet whose two endpoint
  pairs are equal, the direction bit is false although the source pair equals
  \<open>(ip1, port1)\<close>.
\<close>

theorem FlowKey_order_counterexample:
  "inet_ntoa [9, 0, 0, 1] = Inr ''9.0.0.1''
   \<and> inet_ntoa [10, 0, 0, 2] = Inr ''10.0.0.2''
   \<and> spec_endpoint_lt ([9, 0, 0, 1], 80) ([10, 0, 0, 2], 80)
   \<and> \<not> is_forward (FlowKey_init ''9.0.0.1'' ''10.0.0.2'' 80 80 6)
   \<and> ip1 (FlowKey_init ''9.0.0.1'' ''10.0.0.2'' 80 80 6) = ''10.0.0.2''
   \<and> \<not> is_forward (FlowKey_init ''10.0.0.1'' ''10.0.0.1'' 0 0 1)
   \<and> (''10.0.0.1'', 0) = (ip1 (FlowKey_init ''10.0.0.1'' ''10.0.0.1'' 0 0 1),
                          port1 (FlowKey_init ''10.0.0.1'' ''10.0.0.1'' 0 0 1))"
  by (simp add: inet_ntoa_def decimal.simps digit_char_def spec_endpoint_lt_def
      FlowKey_init_def tuple_lt_def)

text \<open>
  Claim C5. For two different endpoint pairs and any protocol, the key built from a to b
  equals the key built from b to a under \<^verbatim>\<open>__eq__\<close>, the two have the same hash
  (whatever the tuple hash is), and their direction bits are opposite.
\<close>

theorem FlowKey_direction_symmetric:
  assumes "(a_ip, a_port) \<noteq> (b_ip, b_port)"
  shows "FlowKey_eq (FlowKey_init a_ip b_ip a_port b_port proto)
                    (FlowKey_init b_ip a_ip b_port a_port proto)
       \<and> FlowKey_hash h (FlowKey_init a_ip b_ip a_port b_port proto)
           = FlowKey_hash h (FlowKey_init b_ip a_ip b_port a_port proto)
       \<and> is_forward (FlowKey_init a_ip b_ip a_port b_port proto)
           = (\<not> is_forward (FlowKey_init b_ip a_ip b_port a_port proto))"
proof -
  have "tuple_lt (a_ip, a_port) (b_ip, b_port) = (\<not> tuple_lt (b_ip, b_port) (a_ip, a_port))"
    using assms tuple_lt_iff [of "(a_ip, a_port)" "(b_ip, b_port)"] by simp
  then show ?thesis
    by (simp add: FlowKey_init_def FlowKey_eq_def FlowKey_hash_def FlowKey_tuple_def)
qed

text \<open>The theorem at 10.0.0.1:5000 and 10.0.0.2:80, protocol 6.\<close>

theorem FlowKey_direction_symmetric_witness:
  "FlowKey_eq (FlowKey_init ''10.0.0.1'' ''10.0.0.2'' 5000 80 6)
              (FlowKey_init ''10.0.0.2'' ''10.0.0.1'' 80 5000 6)
   \<and> is_forward (FlowKey_init ''10.0.0.1'' ''10.0.0.2'' 5000 80 6)
   \<and> \<not> is_forward (FlowKey_init ''10.0.0.2'' ''10.0.0.1'' 80 5000 6)
   \<and> FlowKey_tuple (FlowKey_init ''10.0.0.2'' ''10.0.0.1'' 80 5000 6)
       = (''10.0.0.1'', 5000, ''10.0.0.2'', 80, 6)"
proof -
  have ne: "(''10.0.0.1'', 5000::int) \<noteq> (''10.0.0.2'', 80)" by simp
  have fwd: "is_forward (FlowKey_init ''10.0.0.1'' ''10.0.0.2'' 5000 80 6)"
    by (simp add: FlowKey_init_def tuple_lt_def)
  have tup: "FlowKey_tuple (FlowKey_init ''10.0.0.2'' ''10.0.0.1'' 80 5000 6)
       = (''10.0.0.1'', 5000, ''10.0.0.2'', 80, 6)"
    by (simp add: FlowKey_init_def tuple_lt_def FlowKey_tuple_def)
  from FlowKey_direction_symmetric [OF ne, of 6] fwd tup show ?thesis by simp
qed

section \<open>Properties of FlowState.update\<close>

text \<open>What each step of \<^verbatim>\<open>update\<close> does to the attributes the claims speak of.\<close>

lemma init_timing_fields:
  "total_packets (init_timing ts fs) = total_packets fs"
  "fwd_packets (init_timing ts fs) = fwd_packets fs"
  "bwd_packets (init_timing ts fs) = bwd_packets fs"
  "fwd_bytes (init_timing ts fs) = fwd_bytes fs"
  "bwd_bytes (init_timing ts fs) = bwd_bytes fs"
  "fwd_packet_lengths (init_timing ts fs) = fwd_packet_lengths fs"
  "start_time (init_timing ts fs) = (if start_time fs = None then Some ts else start_time fs)"
  "last_time (init_timing ts fs) = last_time fs"
  "last_packet_time (init_timing ts fs) = last_packet_time fs"
  "all_inter_arrival_times (init_timing ts fs) = all_inter_arrival_times fs"
  "idle_periods (init_timing ts fs) = idle_periods fs"
  "last_activity_time (init_timing ts fs) = (if start_time fs = None then Some ts else last_activity_time fs)"
  by (simp_all add: init_timing_def Let_def split: option.splits)

lemma update_general_fields:
  "total_packets (update_general pl ts fs) = total_packets fs + 1"
  "fwd_packets (update_general pl ts fs) = fwd_packets fs"
  "bwd_packets (update_general pl ts fs) = bwd_packets fs"
  "fwd_bytes (update_general pl ts fs) = fwd_bytes fs"
  "bwd_bytes (update_general pl ts fs) = bwd_bytes fs"
  "fwd_packet_lengths (update_general pl ts fs) = fwd_packet_lengths fs"
  "start_time (update_general pl ts fs) = start_time fs"
  "last_time (update_general pl ts fs) = Some ts"
  "last_packet_time (update_general pl ts fs) = Some ts"
  "all_inter_arrival_times (update_general pl ts fs) = (case last_packet_time fs of None \<Rightarrow> all_inter_arrival_times fs | Some t \<Rightarrow> all_inter_arrival_times fs @ [ts - t])"
  "idle_periods (update_general pl ts fs) = idle_periods fs"
  "last_activity_time (update_general pl ts fs) = last_activity_time fs"
  by (simp_all add: update_general_def Let_def split: option.splits)

lemma update_direction_fields:
  "total_packets (update_direction pl ts fwd fs) = total_packets fs"
  "fwd_packets (update_direction pl ts fwd fs) = (if fwd then fwd_packets fs + 1 else fwd_packets fs)"
  "bwd_packets (update_direction pl ts fwd fs) = (if fwd then bwd_packets fs else bwd_packets fs + 1)"
  "fwd_bytes (update_direction pl ts fwd fs) = (if fwd then fwd_bytes fs + pl else fwd_bytes fs)"
  "bwd_bytes (update_direction pl ts fwd fs) = (if fwd then bwd_bytes fs else bwd_bytes fs + pl)"
  "fwd_packet_lengths (update_direction pl ts fwd fs) = (if fwd then fwd_packet_lengths fs @ [pl] else fwd_packet_lengths fs)"
  "start_time (update_direction pl ts fwd fs) = start_time fs"
  "last_time (update_direction pl ts fwd fs) = last_time fs"
  "last_packet_time (update_direction pl ts fwd fs) = last_packet_time fs"
  "all_inter_arrival_times (update_direction pl ts fwd fs) = all_inter_arrival_times fs"
  "idle_periods (update_direction pl ts fwd fs) = idle_periods fs"
  "last_activity_time (update_direction pl ts fwd fs) = last_activity_time fs"
  by (simp_all add: update_direction_def Let_def split: option.splits)

lemma update_tcp_fields:
  "total_packets (update_tcp fl w fs) = total_packets fs"
  "fwd_packets (update_tcp fl w fs) = fwd_packets fs"
  "bwd_packets (update_tcp fl w fs) = bwd_packets fs"
  "fwd_bytes (update_tcp fl w fs) = fwd_bytes fs"
  "bwd_bytes (update_tcp fl w fs) = bwd_bytes fs"
  "fwd_packet_lengths (update_tcp fl w fs) = fwd_packet_lengths fs"
  "start_time (update_tcp fl w fs) = start_time fs"
  "last_time (update_tcp fl w fs) = last_time fs"
  "last_packet_time (update_tcp fl w fs) = last_packet_time fs"
  "all_inter_arrival_times (update_tcp fl w fs) = all_inter_arrival_times fs"
  "idle_periods (update_tcp fl w fs) = idle_periods fs"
  "last_activity_time (update_tcp fl w fs) = last_activity_time fs"
  by (simp_all add: update_tcp_def Let_def split: option.splits)

lemma update_activity_fields:
  "total_packets (update_activity ts fs) = total_packets fs"
  "fwd_packets (update_activity ts fs) = fwd_packets fs"
  "bwd_packets (update_activity ts fs) = bwd_packets fs"
  "fwd_bytes (update_activity ts fs) = fwd_bytes fs"
  "bwd_bytes (update_activity ts fs) = bwd_bytes fs"
  "fwd_packet_lengths (update_activity ts fs) = fwd_packet_lengths fs"
  "start_time (update_activity ts fs) = start_time fs"
  "last_time (update_activity ts fs) = last_time fs"
  "last_packet_time (update_activity ts fs) = last_packet_time fs"
  "all_inter_arrival_times (update_activity ts fs) = all_inter_arrival_times fs"
  "idle_periods (update_activity ts fs) = idle_periods fs @ (case last_activity_time fs of None \<Rightarrow> [] | Some t \<Rightarrow> if ts - t > 1 then [ts - t] else [])"
  "last_activity_time (update_activity ts fs) = Some ts"
  by (simp_all add: update_activity_def Let_def split: option.splits)

lemmas step_fields = init_timing_fields update_general_fields update_direction_fields
  update_tcp_fields update_activity_fields

lemma update_counts:
  "total_packets (update fs pl ts fwd fl w) = total_packets fs + 1"
  "fwd_packets (update fs pl ts fwd fl w) = (if fwd then fwd_packets fs + 1 else fwd_packets fs)"
  "bwd_packets (update fs pl ts fwd fl w) = (if fwd then bwd_packets fs else bwd_packets fs + 1)"
  "fwd_bytes (update fs pl ts fwd fl w) = (if fwd then fwd_bytes fs + pl else fwd_bytes fs)"
  "bwd_bytes (update fs pl ts fwd fl w) = (if fwd then bwd_bytes fs else bwd_bytes fs + pl)"
  "fwd_packet_lengths (update fs pl ts fwd fl w)
     = (if fwd then fwd_packet_lengths fs @ [pl] else fwd_packet_lengths fs)"
  by (simp_all add: update_def step_fields)

lemma update_times:
  "start_time (update fs pl ts fwd fl w)
     = (if start_time fs = None then Some ts else start_time fs)"
  "last_time (update fs pl ts fwd fl w) = Some ts"
  "last_packet_time (update fs pl ts fwd fl w) = Some ts"
  "all_inter_arrival_times (update fs pl ts fwd fl w)
     = (case last_packet_time fs of
          None \<Rightarrow> all_inter_arrival_times fs
        | Some t \<Rightarrow> all_inter_arrival_times fs @ [ts - t])"
  by (simp_all add: update_def step_fields split: option.splits)


lemma updates_snoc: "updates fs (calls @ [c]) = apply_call (updates fs calls) c"
  by (simp add: updates_def)

lemma updates_Nil: "updates fs [] = fs"
  by (simp add: updates_def)

lemma updates_Cons: "updates fs (c # calls) = updates (apply_call fs c) calls"
  by (simp add: updates_def)

lemma updates_total:
  "total_packets (updates FlowState_init calls) = int (length calls)"
proof (induction calls rule: rev_induct)
  case Nil
  show ?case by (simp add: updates_Nil FlowState_init_def)
next
  case (snoc c calls)
  obtain pl ts fwd fl w where c: "c = (pl, ts, fwd, fl, w)" by (cases c) auto
  show ?case
    unfolding updates_snoc c apply_call_def by (simp add: update_counts snoc)
qed

lemma updates_fwd_bwd:
  "total_packets (updates FlowState_init calls)
     = fwd_packets (updates FlowState_init calls) + bwd_packets (updates FlowState_init calls)"
proof (induction calls rule: rev_induct)
  case Nil
  show ?case by (simp add: updates_Nil FlowState_init_def)
next
  case (snoc c calls)
  obtain pl ts fwd fl w where c: "c = (pl, ts, fwd, fl, w)" by (cases c) auto
  show ?case
    unfolding updates_snoc c apply_call_def by (simp add: update_counts snoc)
qed

lemma updates_fwd_bytes:
  "fwd_bytes (updates FlowState_init calls)
     = sum_list (fwd_packet_lengths (updates FlowState_init calls))"
proof (induction calls rule: rev_induct)
  case Nil
  show ?case by (simp add: updates_Nil FlowState_init_def)
next
  case (snoc c calls)
  obtain pl ts fwd fl w where c: "c = (pl, ts, fwd, fl, w)" by (cases c) auto
  show ?case
    unfolding updates_snoc c apply_call_def by (simp add: update_counts snoc)
qed

lemma updates_last:
  "calls \<noteq> [] \<Longrightarrow>
     last_time (updates FlowState_init calls) = Some (call_ts (last calls))
   \<and> last_packet_time (updates FlowState_init calls) = Some (call_ts (last calls))"
proof (induction calls rule: rev_induct)
  case Nil
  then show ?case by simp
next
  case (snoc c calls)
  obtain pl ts fwd fl w where c: "c = (pl, ts, fwd, fl, w)" by (cases c) auto
  show ?case
    unfolding updates_snoc c apply_call_def by (simp add: update_times call_ts_def)
qed

lemma updates_start:
  "calls \<noteq> [] \<Longrightarrow> start_time (updates FlowState_init calls) = Some (call_ts (hd calls))"
proof (induction calls rule: rev_induct)
  case Nil
  then show ?case by simp
next
  case (snoc c calls)
  obtain pl ts fwd fl w where c: "c = (pl, ts, fwd, fl, w)" by (cases c) auto
  show ?case
  proof (cases "calls = []")
    case True
    show ?thesis
      unfolding True c
      by (simp add: updates_Cons updates_Nil apply_call_def update_times call_ts_def
          FlowState_init_def)
  next
    case False
    with snoc have "start_time (updates FlowState_init calls) = Some (call_ts (hd calls))"
      by simp
    with False show ?thesis
      unfolding updates_snoc c apply_call_def by (simp add: update_times)
  qed
qed

lemma updates_iat:
  "length (all_inter_arrival_times (updates FlowState_init calls)) = length calls - 1"
proof (induction calls rule: rev_induct)
  case Nil
  show ?case by (simp add: updates_Nil FlowState_init_def)
next
  case (snoc c calls)
  obtain pl ts fwd fl w where c: "c = (pl, ts, fwd, fl, w)" by (cases c) auto
  show ?case
  proof (cases "calls = []")
    case True
    show ?thesis
      unfolding True c
      by (simp add: updates_Cons updates_Nil apply_call_def update_times FlowState_init_def)
  next
    case False
    then have lp: "last_packet_time (updates FlowState_init calls) = Some (call_ts (last calls))"
      using updates_last by simp
    from False have "length calls > 0" by simp
    then show ?thesis
      unfolding updates_snoc c apply_call_def by (simp add: update_times lp snoc)
  qed
qed

text \<open>
  Claim C2, as the code has it. After any finite sequence of \<^verbatim>\<open>update\<close> calls on a new
  \<^verbatim>\<open>FlowState\<close>: \<open>total_packets = fwd_packets + bwd_packets\<close>; \<open>fwd_bytes\<close> is the
  sum of \<open>fwd_packet_lengths\<close>; the length of \<open>all_inter_arrival_times\<close> is
  \<open>max 0 (total_packets - 1)\<close>; and, when at least one call was made, \<open>start_time\<close> is
  the timestamp of the first call and \<open>last_time\<close> that of the last call, so that
  \<open>last_time \<ge> start_time\<close> holds whenever the last timestamp is not earlier than the
  first (in particular when the timestamps do not decrease).
\<close>

theorem updates_invariants:
  "total_packets (updates FlowState_init calls)
     = fwd_packets (updates FlowState_init calls) + bwd_packets (updates FlowState_init calls)
   \<and> fwd_bytes (updates FlowState_init calls)
       = sum_list (fwd_packet_lengths (updates FlowState_init calls))
   \<and> int (length (all_inter_arrival_times (updates FlowState_init calls)))
       = max 0 (total_packets (updates FlowState_init calls) - 1)
   \<and> (calls \<noteq> [] \<longrightarrow>
        start_time (updates FlowState_init calls) = Some (call_ts (hd calls))
      \<and> last_time (updates FlowState_init calls) = Some (call_ts (last calls)))
   \<and> (calls \<noteq> [] \<and> call_ts (hd calls) \<le> call_ts (last calls) \<longrightarrow>
        (\<exists>s l. start_time (updates FlowState_init calls) = Some s
             \<and> last_time (updates FlowState_init calls) = Some l \<and> l \<ge> s))"
proof (cases "calls = []")
  case True
  then show ?thesis by (simp add: updates_Nil FlowState_init_def)
next
  case False
  then have "int (length calls - 1) = max 0 (int (length calls) - 1)"
    by (cases calls) simp_all
  then have iat: "int (length (all_inter_arrival_times (updates FlowState_init calls)))
       = max 0 (total_packets (updates FlowState_init calls) - 1)"
    by (simp only: updates_iat updates_total)
  from False have st: "start_time (updates FlowState_init calls) = Some (call_ts (hd calls))"
    by (rule updates_start)
  from False have lt: "last_time (updates FlowState_init calls) = Some (call_ts (last calls))"
    using updates_last by simp
  show ?thesis
    using updates_fwd_bwd [of calls] updates_fwd_bytes [of calls] iat
    by (simp add: st lt)
qed

text \<open>The theorem at a forward packet of 60 bytes at time 1 followed by a backward packet
  of 40 bytes at time 2.5.\<close>

theorem updates_invariants_witness:
  "total_packets (updates FlowState_init [(60, 1, True, 2, 100), (40, 2.5, False, 18, 200)]) = 2
   \<and> fwd_packets (updates FlowState_init [(60, 1, True, 2, 100), (40, 2.5, False, 18, 200)]) = 1
   \<and> bwd_packets (updates FlowState_init [(60, 1, True, 2, 100), (40, 2.5, False, 18, 200)]) = 1
   \<and> fwd_bytes (updates FlowState_init [(60, 1, True, 2, 100), (40, 2.5, False, 18, 200)]) = 60
   \<and> int (length (all_inter_arrival_times
        (updates FlowState_init [(60, 1, True, 2, 100), (40, 2.5, False, 18, 200)]))) = 1
   \<and> start_time (updates FlowState_init [(60, 1, True, 2, 100), (40, 2.5, False, 18, 200)])
       = Some 1
   \<and> last_time (updates FlowState_init [(60, 1, True, 2, 100), (40, 2.5, False, 18, 200)])
       = Some 2.5"
proof -
  have f: "fwd_packets (updates FlowState_init [(60, 1, True, 2, 100), (40, 2.5, False, 18, 200)])
             = 1"
    by (simp add: updates_Cons updates_Nil apply_call_def update_counts FlowState_init_def)
  have b: "fwd_bytes (updates FlowState_init [(60, 1, True, 2, 100), (40, 2.5, False, 18, 200)])
             = 60"
    by (simp add: updates_Cons updates_Nil apply_call_def update_counts FlowState_init_def)
  have t: "total_packets (updates FlowState_init [(60, 1, True, 2, 100), (40, 2.5, False, 18, 200)])
             = 2"
    by (simp add: updates_Cons updates_Nil apply_call_def update_counts FlowState_init_def)
  show ?thesis
    using updates_invariants [of "[(60, 1, True, 2, 100), (40, 2.5, False, 18, 200)]"] f b t
    by (simp add: call_ts_def)
qed

text \<open>
  Claim C2 as stated fails for timestamps that decrease: \<^verbatim>\<open>update\<close> takes any
  timestamp, and after a call at time 5 and a call at time 3 \<open>start_time\<close> is 5 and
  \<open>last_time\<close> is 3.
\<close>

theorem last_before_start_counterexample:
  "start_time (updates FlowState_init [(60, 5, True, 0, 0), (60, 3, True, 0, 0)]) = Some 5
   \<and> last_time (updates FlowState_init [(60, 5, True, 0, 0), (60, 3, True, 0, 0)]) = Some 3
   \<and> \<not> (the (last_time (updates FlowState_init [(60, 5, True, 0, 0), (60, 3, True, 0, 0)]))
          \<ge> the (start_time (updates FlowState_init [(60, 5, True, 0, 0), (60, 3, True, 0, 0)])))"
  by (simp add: updates_Cons updates_Nil apply_call_def update_times FlowState_init_def)

section \<open>Properties of calculate\_flow\_statistics\<close>

text \<open>Every guarded call of the statistics functions returns: the function raises for no
  flow state and no time.\<close>

lemma statistics_mean_Inr:
  "xs \<noteq> [] \<Longrightarrow> statistics_mean xs = Inr (sum_list xs / real (length xs))"
  by (simp add: statistics_mean_def)

lemma statistics_variance_Inr:
  "length xs > 1 \<Longrightarrow> \<exists>v. statistics_variance xs = Inr v"
  by (simp add: statistics_variance_def Let_def)

lemma statistics_stdev_Inr:
  "length xs > 1 \<Longrightarrow> \<exists>sd. statistics_stdev xs = Inr sd"
  using statistics_variance_Inr [of xs] by (auto simp: statistics_stdev_def)

lemma mean_stats_total: "\<exists>m. mean_stats xs = Inr m"
  by (simp add: mean_stats_def statistics_mean_def)

lemma mean_std_stats_total: "\<exists>m sd. mean_std_stats xs = Inr (m, sd)"
proof (cases "xs = []")
  case True
  then show ?thesis by (simp add: mean_std_stats_def)
next
  case False
  show ?thesis
  proof (cases "length xs > 1")
    case True
    then obtain sd where "statistics_stdev xs = Inr sd"
      using statistics_stdev_Inr by blast
    with False True show ?thesis
      by (simp add: mean_std_stats_def statistics_mean_Inr and_then_def)
  next
    case False
    with \<open>xs \<noteq> []\<close> show ?thesis
      by (simp add: mean_std_stats_def statistics_mean_Inr and_then_def)
  qed
qed

lemma packet_length_stats_total: "\<exists>r. packet_length_stats xs = Inr r"
proof (cases "xs = []")
  case True
  then show ?thesis by (simp add: packet_length_stats_def)
next
  case False
  then have "map real_of_int xs \<noteq> []" by simp
  then obtain m where m: "statistics_mean (map real_of_int xs) = Inr m"
    using statistics_mean_Inr by blast
  from False obtain mn mx where mn: "py_min xs = Inr mn" and mx: "py_max xs = Inr mx"
    by (cases xs) (simp_all add: py_min_def py_max_def)
  show ?thesis
  proof (cases "length xs > 1")
    case True
    then have "length (map real_of_int xs) > 1" by simp
    then obtain sd v where sd: "statistics_stdev (map real_of_int xs) = Inr sd"
      and v: "statistics_variance (map real_of_int xs) = Inr v"
      using statistics_stdev_Inr statistics_variance_Inr by blast
    from False True show ?thesis
      by (simp add: packet_length_stats_def m sd v mn mx and_then_def)
  next
    case short: False
    with False show ?thesis
      by (simp add: packet_length_stats_def m mn mx and_then_def)
  qed
qed

lemma rate_stats_eq:
  "rate_stats fs d =
     Inr (if d > 0
          then (real_of_int (fwd_bytes fs + bwd_bytes fs) / d, real_of_int (total_packets fs) / d,
                real_of_int (fwd_packets fs) / d, real_of_int (bwd_packets fs) / d)
          else (0, 0, 0, 0))"
  by (simp add: rate_stats_def truediv_def and_then_def Let_def)

lemma calculate_flow_statistics_fields:
  "\<exists>st. calculate_flow_statistics fs t = Inr st
     \<and> s_flow_duration st = flow_duration_of fs t
     \<and> rate_stats fs (flow_duration_of fs t)
         = Inr (s_flow_bytes_per_second st, s_flow_packets_per_second st,
                s_fwd_packets_per_second st, s_bwd_packets_per_second st)
     \<and> mean_std_stats (idle_periods fs) = Inr (s_idle_mean st, s_idle_std st)
     \<and> mean_std_stats (active_periods fs) = Inr (s_active_mean st, s_active_std st)
     \<and> s_total_fwd_packets st = fwd_packets fs
     \<and> s_total_bwd_packets st = bwd_packets fs"
proof -
  obtain pl where pl: "packet_length_stats (all_packet_lengths fs) = Inr pl"
    using packet_length_stats_total by blast
  obtain a b c d e where pl5: "pl = (a, b, c, d, e)" by (cases pl) auto
  obtain fm where fm: "mean_stats (map real_of_int (fwd_packet_lengths fs)) = Inr fm"
    using mean_stats_total by blast
  obtain r where r: "rate_stats fs (flow_duration_of fs t) = Inr r"
    using rate_stats_eq by blast
  obtain r1 r2 r3 r4 where r4: "r = (r1, r2, r3, r4)" by (cases r) auto
  obtain im isd where iat: "mean_std_stats (all_inter_arrival_times fs) = Inr (im, isd)"
    using mean_std_stats_total by blast
  obtain fim where fim: "mean_stats (fwd_inter_arrival_times fs) = Inr fim"
    using mean_stats_total by blast
  obtain bim where bim: "mean_stats (bwd_inter_arrival_times fs) = Inr bim"
    using mean_stats_total by blast
  obtain am asd where act: "mean_std_stats (active_periods fs) = Inr (am, asd)"
    using mean_std_stats_total by blast
  obtain dm dsd where idl: "mean_std_stats (idle_periods fs) = Inr (dm, dsd)"
    using mean_std_stats_total by blast
  obtain wm where wm: "mean_stats (map real_of_int (tcp_window_sizes fs)) = Inr wm"
    using mean_stats_total by blast
  show ?thesis
    unfolding calculate_flow_statistics_def Let_def
    by (simp add: pl pl5 fm r r4 iat fim bim act idl wm and_then_def)
qed

lemma flow_duration_single:
  "flow_duration_of (update FlowState_init pl ts fwd fl w) ts = 0"
  by (simp add: flow_duration_of_def update_times FlowState_init_def truthy_def)

text \<open>
  Claim C8. For every flow state and every current time
  \<^verbatim>\<open>calculate_flow_statistics\<close> returns (no \<^verbatim>\<open>ZeroDivisionError\<close> or other exception);
  when the \<open>flow_duration\<close> it computes is 0 the four rates are 0; when it is positive
  they are the byte total, the packet total, the forward count and the backward count
  divided by it; and for a flow of a single packet, at the time of that packet, the
  duration is 0.
\<close>

theorem rates_by_duration:
  "\<exists>st. calculate_flow_statistics fs t = Inr st
     \<and> (s_flow_duration st = 0 \<longrightarrow>
          s_flow_bytes_per_second st = 0 \<and> s_flow_packets_per_second st = 0
        \<and> s_fwd_packets_per_second st = 0 \<and> s_bwd_packets_per_second st = 0)
     \<and> (s_flow_duration st > 0 \<longrightarrow>
          s_flow_bytes_per_second st
            = real_of_int (fwd_bytes fs + bwd_bytes fs) / s_flow_duration st
        \<and> s_flow_packets_per_second st = real_of_int (total_packets fs) / s_flow_duration st
        \<and> s_fwd_packets_per_second st = real_of_int (fwd_packets fs) / s_flow_duration st
        \<and> s_bwd_packets_per_second st = real_of_int (bwd_packets fs) / s_flow_duration st)
     \<and> (fs = update FlowState_init pl t fwd fl w \<longrightarrow> s_flow_duration st = 0)"
proof -
  obtain st where st: "calculate_flow_statistics fs t = Inr st"
    and dur: "s_flow_duration st = flow_duration_of fs t"
    and rates: "rate_stats fs (flow_duration_of fs t)
         = Inr (s_flow_bytes_per_second st, s_flow_packets_per_second st,
                s_fwd_packets_per_second st, s_bwd_packets_per_second st)"
    using calculate_flow_statistics_fields [of fs t] by blast
  from rates have
    "(s_flow_bytes_per_second st, s_flow_packets_per_second st,
      s_fwd_packets_per_second st, s_bwd_packets_per_second st)
       = (if s_flow_duration st > 0
          then (real_of_int (fwd_bytes fs + bwd_bytes fs) / s_flow_duration st,
                real_of_int (total_packets fs) / s_flow_duration st,
                real_of_int (fwd_packets fs) / s_flow_duration st,
                real_of_int (bwd_packets fs) / s_flow_duration st)
          else (0, 0, 0, 0))"
    by (auto simp: rate_stats_eq dur split: if_splits)
  then have a: "s_flow_duration st = 0 \<longrightarrow>
          s_flow_bytes_per_second st = 0 \<and> s_flow_packets_per_second st = 0
        \<and> s_fwd_packets_per_second st = 0 \<and> s_bwd_packets_per_second st = 0"
    and b: "s_flow_duration st > 0 \<longrightarrow>
          s_flow_bytes_per_second st
            = real_of_int (fwd_bytes fs + bwd_bytes fs) / s_flow_duration st
        \<and> s_flow_packets_per_second st = real_of_int (total_packets fs) / s_flow_duration st
        \<and> s_fwd_packets_per_second st = real_of_int (fwd_packets fs) / s_flow_duration st
        \<and> s_bwd_packets_per_second st = real_of_int (bwd_packets fs) / s_flow_duration st"
    by (auto split: if_splits)
  have c: "fs = update FlowState_init pl t fwd fl w \<longrightarrow> s_flow_duration st = 0"
    by (simp add: dur flow_duration_single)
  from st a b c show ?thesis by blast
qed

text \<open>The theorem at a flow of two packets (100 bytes forward at time 10, 50 bytes backward
  at time 12) and at a flow of one packet.\<close>

theorem rates_by_duration_witness:
  "(\<exists>st. calculate_flow_statistics
           (updates FlowState_init [(100, 10, True, 0, 0), (50, 12, False, 0, 0)]) 12 = Inr st
        \<and> s_flow_duration st = 2
        \<and> s_flow_bytes_per_second st = 75
        \<and> s_flow_packets_per_second st = 1
        \<and> s_fwd_packets_per_second st = 1 / 2
        \<and> s_bwd_packets_per_second st = 1 / 2)
   \<and> (\<exists>st. calculate_flow_statistics (update FlowState_init 74 1000 True 2 100) 1000 = Inr st
        \<and> s_flow_duration st = 0
        \<and> s_flow_bytes_per_second st = 0
        \<and> s_flow_packets_per_second st = 0
        \<and> s_fwd_packets_per_second st = 0
        \<and> s_bwd_packets_per_second st = 0)"
proof -
  let ?F = "updates FlowState_init [(100, 10, True, 0, 0), (50, 12, False, 0, 0)]"
  have vals: "fwd_bytes ?F = 100" "bwd_bytes ?F = 50" "total_packets ?F = 2"
    "fwd_packets ?F = 1" "bwd_packets ?F = 1" "start_time ?F = Some 10"
    by (simp_all add: updates_Cons updates_Nil apply_call_def update_counts update_times
        FlowState_init_def)
  have d: "flow_duration_of ?F 12 = 2"
    by (simp add: flow_duration_of_def vals truthy_def)
  obtain st where st: "calculate_flow_statistics ?F 12 = Inr st"
    and pos: "s_flow_duration st > 0 \<longrightarrow>
          s_flow_bytes_per_second st
            = real_of_int (fwd_bytes ?F + bwd_bytes ?F) / s_flow_duration st
        \<and> s_flow_packets_per_second st = real_of_int (total_packets ?F) / s_flow_duration st
        \<and> s_fwd_packets_per_second st = real_of_int (fwd_packets ?F) / s_flow_duration st
        \<and> s_bwd_packets_per_second st = real_of_int (bwd_packets ?F) / s_flow_duration st"
    using rates_by_duration [of ?F 12] by blast
  have "s_flow_duration st = 2"
    using calculate_flow_statistics_fields [of ?F 12] st d by auto
  with pos st have first: "\<exists>st. calculate_flow_statistics ?F 12 = Inr st
        \<and> s_flow_duration st = 2
        \<and> s_flow_bytes_per_second st = 75
        \<and> s_flow_packets_per_second st = 1
        \<and> s_fwd_packets_per_second st = 1 / 2
        \<and> s_bwd_packets_per_second st = 1 / 2"
    by (simp add: vals)
  let ?G = "update FlowState_init 74 1000 True 2 100"
  obtain st' where st': "calculate_flow_statistics ?G 1000 = Inr st'"
    and zero: "s_flow_duration st' = 0 \<longrightarrow>
          s_flow_bytes_per_second st' = 0 \<and> s_flow_packets_per_second st' = 0
        \<and> s_fwd_packets_per_second st' = 0 \<and> s_bwd_packets_per_second st' = 0"
    and single: "?G = update FlowState_init 74 1000 True 2 100 \<longrightarrow> s_flow_duration st' = 0"
    using rates_by_duration [of ?G 1000 74 True 2 100] by blast
  from st' zero single have second: "\<exists>st. calculate_flow_statistics ?G 1000 = Inr st
        \<and> s_flow_duration st = 0
        \<and> s_flow_bytes_per_second st = 0
        \<and> s_flow_packets_per_second st = 0
        \<and> s_fwd_packets_per_second st = 0
        \<and> s_bwd_packets_per_second st = 0"
    by simp
  from first second show ?thesis by blast
qed



section \<open>Properties of cleanup\_old\_flows\<close>

text \<open>When more than 60 seconds have passed since the last sweep, the sweep removes the
  flows whose \<open>last_time\<close> is set, is not 0.0 and is below \<open>current_time - 300\<close>, keeps
  every other flow and records \<open>current_time\<close> as the time of the last sweep. Otherwise
  it changes nothing, so a second call within 60 seconds of a sweep leaves the table as it
  is.\<close>

lemma cleanup_old_flows_when_due:
  "current_time - last_cleanup st > 60 \<Longrightarrow>
     flow_states (cleanup_old_flows current_time st) k
       = (case flow_states st k of
            None \<Rightarrow> None
          | Some fs \<Rightarrow>
              (case last_time fs of
                 None \<Rightarrow> Some fs
               | Some t \<Rightarrow> if t \<noteq> 0 \<and> t < current_time - 300 then None else Some fs))
   \<and> last_cleanup (cleanup_old_flows current_time st) = current_time"
  by (simp add: cleanup_old_flows_def to_remove_def truthy_def Let_def split: option.splits)

lemma cleanup_old_flows_not_due:
  "current_time - last_cleanup st \<le> 60 \<Longrightarrow> cleanup_old_flows current_time st = st"
  by (simp add: cleanup_old_flows_def)

lemma cleanup_old_flows_gate:
  "t1 - last_cleanup st > 60 \<Longrightarrow> t2 - t1 \<le> 60 \<Longrightarrow>
     cleanup_old_flows t2 (cleanup_old_flows t1 st) = cleanup_old_flows t1 st"
  using cleanup_old_flows_when_due [of t1 st] cleanup_old_flows_not_due by simp

text \<open>
  Claim C7 at a flow whose last packet has the timestamp 0.0. The sweep runs at time
  1700000000, 1000 seconds after the last one. The flow's \<open>last_time\<close> is 0, far below
  the cutoff, but line 205 tests \<^verbatim>\<open>flow_state.last_time and ...\<close>, and \<^verbatim>\<open>0.0\<close> is
  false: the flow stays in the table. A flow last seen at time 0.5 is removed by the same
  sweep.
\<close>

theorem sweep_keeps_flow_last_seen_at_zero:
  "last_time (update FlowState_init 60 0 True 0 0) = Some 0
   \<and> (0 :: real) < 1700000000 - 300
   \<and> flow_states
        (cleanup_old_flows 1700000000
           \<lparr>flow_states = [(''10.0.0.1'', 5000, ''10.0.0.2'', 80, 6)
                             \<mapsto> update FlowState_init 60 0 True 0 0],
            last_cleanup = 1699999000\<rparr>)
        (''10.0.0.1'', 5000, ''10.0.0.2'', 80, 6)
      = Some (update FlowState_init 60 0 True 0 0)
   \<and> flow_states
        (cleanup_old_flows 1700000000
           \<lparr>flow_states = [(''10.0.0.1'', 5000, ''10.0.0.2'', 80, 6)
                             \<mapsto> update FlowState_init 60 (1 / 2) True 0 0],
            last_cleanup = 1699999000\<rparr>)
        (''10.0.0.1'', 5000, ''10.0.0.2'', 80, 6)
      = None"
  by (simp add: cleanup_old_flows_def to_remove_def truthy_def update_times)

section \<open>Properties of the capture loop\<close>

text \<open>The body of the loop calls \<^verbatim>\<open>free_packet\<close> once for its handle, however the
  \<^verbatim>\<open>try\<close> block ends; and it returns unless the callback raises an exception that only
  derives from \<^verbatim>\<open>BaseException\<close>.\<close>

lemma free_packet_calls_free_packet:
  "free_packet_calls (free_packet p cs) = free_packet_calls cs @ [p]"
  "rte_pktmbuf_free_calls (free_packet p cs)
     = rte_pktmbuf_free_calls cs @ (if p \<noteq> 0 then [p] else [])"
  by (simp_all add: free_packet_def Let_def)

lemma process_mbuf_frees:
  "process_mbuf read_mbuf time_time callback (cs, u) p = (e, cs', u') \<Longrightarrow>
     free_packet_calls cs' = free_packet_calls cs @ [p]
   \<and> rte_pktmbuf_free_calls cs'
       = rte_pktmbuf_free_calls cs @ (if p \<noteq> 0 then [p] else [])"
  by (auto simp: process_mbuf_def Let_def free_packet_calls_free_packet
      split: sum.splits if_splits prod.splits ending.splits)

lemma process_mbuf_returns:
  "\<forall>u d t. fst (callback u d t) \<noteq> Raises_BaseException \<Longrightarrow>
     fst (process_mbuf read_mbuf time_time callback (cs, u) p) = Returns"
proof -
  assume h: "\<forall>u d t. fst (callback u d t) \<noteq> Raises_BaseException"
  have "\<And>d t u'. callback u d t \<noteq> (Raises_BaseException, u')"
    using h by (metis fst_conv)
  then show ?thesis
    by (auto simp: process_mbuf_def Let_def split: sum.splits prod.splits ending.splits)
qed

text \<open>
  Claim C9, as the code has it. In one iteration of the capture loop, on every control
  path on which the callback returns or raises an exception that \<^verbatim>\<open>except Exception\<close>
  catches, the loop over the burst runs to its end and \<^verbatim>\<open>free_packet\<close> is called
  exactly once for every handle of the burst, in order: after a successful callback, after
  such an exception in the callback or in reading the buffer, and for a buffer without
  data. The driver's free is called for every handle that is not null.
\<close>

theorem every_buffer_freed_once:
  assumes "\<forall>u d t. fst (callback u d t) \<noteq> Raises_BaseException"
  shows "\<exists>cs' u'. process_burst read_mbuf time_time callback (cs, u) mbufs = (Returns, cs', u')
           \<and> free_packet_calls cs' = free_packet_calls cs @ mbufs
           \<and> rte_pktmbuf_free_calls cs'
               = rte_pktmbuf_free_calls cs @ filter (\<lambda>p. p \<noteq> 0) mbufs"
proof (induction mbufs arbitrary: cs u)
  case Nil
  show ?case by simp
next
  case (Cons p ps)
  obtain e cs1 u1 where step: "process_mbuf read_mbuf time_time callback (cs, u) p = (e, cs1, u1)"
    by (cases "process_mbuf read_mbuf time_time callback (cs, u) p") auto
  have e: "e = Returns"
    using process_mbuf_returns [OF assms, of read_mbuf time_time cs u p] step by simp
  from Cons [of cs1 u1] obtain cs' u' where
    rest: "process_burst read_mbuf time_time callback (cs1, u1) ps = (Returns, cs', u')"
    and f: "free_packet_calls cs' = free_packet_calls cs1 @ ps"
    and r: "rte_pktmbuf_free_calls cs'
               = rte_pktmbuf_free_calls cs1 @ filter (\<lambda>p. p \<noteq> 0) ps"
    by blast
  from process_mbuf_frees [OF step] f r rest step e show ?case
    by simp
qed

text \<open>The theorem at a burst of four handles: the callback raises on the first, the second
  has no data, reading the third raises, the fourth succeeds.\<close>

theorem every_buffer_freed_once_witness:
  "free_packet_calls
     (fst (snd (process_burst
        (\<lambda>p. if p = 1 then Inr [0x45] else if p = 2 then Inr [] else if p = 3 then Inl OSError
              else Inr [1, 2])
        (\<lambda>n. 1000 + real n)
        (\<lambda>u d t. if d = [0x45] then (Raises_Exception, u) else (Returns, Suc u))
        (\<lparr>packet_count = 0, free_packet_calls = [], rte_pktmbuf_free_calls = [],
          warnings = 0, clock_reads = 0\<rparr>, 0 :: nat)
        [1, 2, 3, 4])))
     = [1, 2, 3, 4]
   \<and> rte_pktmbuf_free_calls
     (fst (snd (process_burst
        (\<lambda>p. if p = 1 then Inr [0x45] else if p = 2 then Inr [] else if p = 3 then Inl OSError
              else Inr [1, 2])
        (\<lambda>n. 1000 + real n)
        (\<lambda>u d t. if d = [0x45] then (Raises_Exception, u) else (Returns, Suc u))
        (\<lparr>packet_count = 0, free_packet_calls = [], rte_pktmbuf_free_calls = [],
          warnings = 0, clock_reads = 0\<rparr>, 0 :: nat)
        [1, 2, 3, 4])))
     = [1, 2, 3, 4]"
proof -
  let ?cb = "\<lambda>(u :: nat) (d :: bytes) (t :: real).
               if d = [0x45] then (Raises_Exception, u) else (Returns, Suc u)"
  have h: "\<forall>u d t. fst (?cb u d t) \<noteq> Raises_BaseException" by simp
  show ?thesis
    using every_buffer_freed_once [OF h,
        of "\<lambda>p. if p = 1 then Inr [0x45] else if p = 2 then Inr [] else if p = 3 then Inl OSError
                else Inr [1, 2]"
           "\<lambda>n. 1000 + real n"
           "\<lparr>packet_count = 0, free_packet_calls = [], rte_pktmbuf_free_calls = [],
             warnings = 0, clock_reads = 0\<rparr>" 0 "[1, 2, 3, 4]"]
    by auto
qed

text \<open>In that burst one packet is counted.\<close>

lemma burst_example_counts:
  "packet_count
     (fst (snd (process_burst
        (\<lambda>p. if p = 1 then Inr [0x45] else if p = 2 then Inr [] else if p = 3 then Inl OSError
              else Inr [1, 2])
        (\<lambda>n. 1000 + real n)
        (\<lambda>u d t. if d = [0x45] then (Raises_Exception, u) else (Returns, Suc u))
        (\<lparr>packet_count = 0, free_packet_calls = [], rte_pktmbuf_free_calls = [],
          warnings = 0, clock_reads = 0\<rparr>, 0 :: nat)
        [1, 2, 3, 4])))
     = 1"
  by (simp add: process_mbuf_def free_packet_def Let_def)

text \<open>
  Claim C9 as stated, on every control path, fails when the callback raises
  \<^verbatim>\<open>KeyboardInterrupt\<close> or \<^verbatim>\<open>SystemExit\<close>, which \<^verbatim>\<open>except Exception\<close> on line 124
  does not catch: in a burst of the handles 7 and 8 with such a callback, the
  \<^verbatim>\<open>finally\<close> clause frees handle 7, the exception leaves the \<^verbatim>\<open>for\<close> loop, and
  handle 8 is never freed.
\<close>

theorem burst_not_drained_counterexample:
  "process_burst (\<lambda>p. Inr [1]) (\<lambda>n. 0) (\<lambda>u d t. (Raises_BaseException, u))
     (\<lparr>packet_count = 0, free_packet_calls = [], rte_pktmbuf_free_calls = [],
       warnings = 0, clock_reads = 0\<rparr>, ()) [7, 8]
   = (Raises_BaseException,
      \<lparr>packet_count = 0, free_packet_calls = [7], rte_pktmbuf_free_calls = [7],
       warnings = 0, clock_reads = 1\<rparr>, ())
   \<and> 8 \<notin> set (free_packet_calls (fst (snd
        (process_burst (\<lambda>p. Inr [1]) (\<lambda>n. 0) (\<lambda>u d t. (Raises_BaseException, u))
     (\<lparr>packet_count = 0, free_packet_calls = [], rte_pktmbuf_free_calls = [],
       warnings = 0, clock_reads = 0\<rparr>, ()) [7, 8]))))"
  by (simp add: process_mbuf_def free_packet_def Let_def)

section \<open>Properties of parse\_packet\<close>

text \<open>The header parsers return for every input: each \<^verbatim>\<open>struct.unpack\<close> and
  \<^verbatim>\<open>inet_ntoa\<close> is given a slice of the size it needs, behind a length check. So the
  body of the \<^verbatim>\<open>try\<close> statement raises nothing, and what it computes is read off
  the frame.\<close>

lemma length_byte_slice: "j \<le> length b \<Longrightarrow> length (byte_slice b i j) = j - i"
  by (simp add: byte_slice_def)

lemma nth_byte_slice: "k < j - i \<Longrightarrow> j \<le> length b \<Longrightarrow> byte_slice b i j ! k = b ! (i + k)"
  by (simp add: byte_slice_def)

lemma u8_byte_slice: "k < j - i \<Longrightarrow> j \<le> length b \<Longrightarrow> u8 (byte_slice b i j) k = u8 b (i + k)"
  by (simp add: u8_def nth_byte_slice)

lemma u16_byte_slice:
  "k + 1 < j - i \<Longrightarrow> j \<le> length b \<Longrightarrow> u16 (byte_slice b i j) k = u16 b (i + k)"
  by (simp add: u16_def nth_byte_slice add.assoc)

lemma parse_ethernet_header_short:
  "length packet_data < 14 \<Longrightarrow> parse_ethernet_header packet_data = Inr (None, None, None)"
  by (simp add: parse_ethernet_header_def)

lemma parse_ethernet_header_long:
  "length packet_data \<ge> 14 \<Longrightarrow>
     \<exists>d s. parse_ethernet_header packet_data = Inr (Some d, Some s, Some (u16 packet_data 12))"
  by (simp add: u16_def byte_slice_def parse_ethernet_header_def struct_unpack_def length_byte_slice and_then_def Let_def)

lemma inet_ntoa_total: "length b = 4 \<Longrightarrow> \<exists>s. inet_ntoa b = Inr s"
  by (simp add: inet_ntoa_def)

lemma parse_ip_header_short:
  "length packet_data < 34 \<Longrightarrow> parse_ip_header packet_data 14 = Inr None"
  by (simp add: parse_ip_header_def)

lemma parse_ip_header_long:
  assumes "length packet_data \<ge> 34"
  shows "\<exists>src dst info.
           inet_ntoa (byte_slice packet_data 26 30) = Inr src
         \<and> inet_ntoa (byte_slice packet_data 30 34) = Inr dst
         \<and> parse_ip_header packet_data 14
             = Inr (Some (info, 14 + nat ((u8 packet_data 14 AND 0xF) * 4)))
         \<and> ipi_src_ip info = src \<and> ipi_dst_ip info = dst
         \<and> ipi_protocol info = u8 packet_data 23
         \<and> ipi_ttl info = u8 packet_data 22
         \<and> ipi_tos info = u8 packet_data 15
         \<and> ipi_header_length info = (u8 packet_data 14 AND 0xF) * 4
         \<and> ipi_version info = drop_bit 4 (u8 packet_data 14)"
proof -
  from assms have l1: "length (byte_slice packet_data 26 30) = 4"
    and l2: "length (byte_slice packet_data 30 34) = 4"
    by (simp_all add: length_byte_slice)
  then obtain src dst where src: "inet_ntoa (byte_slice packet_data 26 30) = Inr src"
    and dst: "inet_ntoa (byte_slice packet_data 30 34) = Inr dst"
    using inet_ntoa_total by blast
  have s1: "byte_slice (byte_slice packet_data 14 34) 12 16 = byte_slice packet_data 26 30"
    and s2: "byte_slice (byte_slice packet_data 14 34) 16 20 = byte_slice packet_data 30 34"
    by (simp_all add: byte_slice_def drop_take)
  have u: "u8 (byte_slice packet_data 14 34) 0 = u8 packet_data 14"
    "u8 (byte_slice packet_data 14 34) (Suc 0) = u8 packet_data 15"
    "u8 (byte_slice packet_data 14 34) 8 = u8 packet_data 22"
    "u8 (byte_slice packet_data 14 34) 9 = u8 packet_data 23"
    using assms by (simp_all add: u8_def byte_slice_def)
  from assms have len: "length (byte_slice packet_data 14 34) = 20"
    by (simp add: length_byte_slice)
  show ?thesis
    using assms
    by (simp add: parse_ip_header_def struct_unpack_def len and_then_def Let_def s1 s2 u src dst)
qed

lemma parse_tcp_header_total: "\<exists>r. parse_tcp_header packet_data offset = Inr r"
  by (simp add: parse_tcp_header_def struct_unpack_def length_byte_slice and_then_def Let_def)

lemma parse_udp_header_total: "\<exists>r. parse_udp_header packet_data offset = Inr r"
  by (simp add: parse_udp_header_def struct_unpack_def length_byte_slice and_then_def)

lemma parse_transport_total:
  "\<exists>f' fl w. parse_transport packet_data info off f = Inr (f', fl, w)
     \<and> src_ip f' = src_ip f \<and> dst_ip f' = dst_ip f \<and> protocol f' = protocol f
     \<and> ttl f' = ttl f \<and> tos f' = tos f \<and> header_length f' = header_length f
     \<and> packet_length f' = packet_length f \<and> timestamp f' = timestamp f
     \<and> label f' = label f"
proof -
  obtain rt where rt: "parse_tcp_header packet_data off = Inr rt"
    using parse_tcp_header_total by blast
  obtain ru where ru: "parse_udp_header packet_data off = Inr ru"
    using parse_udp_header_total by blast
  show ?thesis
    by (cases rt; cases ru) (simp_all add: parse_transport_def rt ru and_then_def)
qed

lemma track_flow_total:
  "\<exists>f'. track_flow f ts fl w st
          = (Inr f',
             st\<lparr>flow_states := (flow_states st)
                (FlowKey_tuple (FlowKey_init (src_ip f) (dst_ip f) (src_port f) (dst_port f)
                                  (protocol f))
                 \<mapsto> update (case flow_states st
                                    (FlowKey_tuple (FlowKey_init (src_ip f) (dst_ip f)
                                       (src_port f) (dst_port f) (protocol f))) of
                               None \<Rightarrow> FlowState_init | Some fs \<Rightarrow> fs)
                      (packet_length f) ts
                      (is_forward (FlowKey_init (src_ip f) (dst_ip f) (src_port f) (dst_port f)
                                     (protocol f)))
                      fl w)\<rparr>)
     \<and> src_ip f' = src_ip f \<and> dst_ip f' = dst_ip f \<and> protocol f' = protocol f
     \<and> src_port f' = src_port f \<and> dst_port f' = dst_port f
     \<and> ttl f' = ttl f \<and> tos f' = tos f \<and> header_length f' = header_length f
     \<and> packet_length f' = packet_length f \<and> timestamp f' = timestamp f
     \<and> label f' = label f"
proof -
  let ?key = "FlowKey_init (src_ip f) (dst_ip f) (src_port f) (dst_port f) (protocol f)"
  let ?fs = "update (case flow_states st (FlowKey_tuple ?key) of
                       None \<Rightarrow> FlowState_init | Some fs \<Rightarrow> fs)
               (packet_length f) ts (is_forward ?key) fl w"
  obtain stats where "calculate_flow_statistics ?fs ts = Inr stats"
    using calculate_flow_statistics_fields [of ?fs ts] by blast
  then show ?thesis
    by (simp add: track_flow_def Let_def)
qed

lemma parse_transport_other:
  "ipi_protocol info \<noteq> 6 \<Longrightarrow> ipi_protocol info \<noteq> 17 \<Longrightarrow>
     parse_transport packet_data info off f = Inr (f, 0, 0)"
  by (simp add: parse_transport_def)

lemma try_body_not_ipv4:
  assumes "length packet_data < 14 \<or> u16 packet_data 12 \<noteq> 0x0800"
  shows "try_body packet_data ts f st = (None, f, st)"
proof (cases "length packet_data < 14")
  case True
  then show ?thesis
    by (simp add: try_body_def parse_ethernet_header_short)
next
  case False
  then obtain d s where
    "parse_ethernet_header packet_data = Inr (Some d, Some s, Some (u16 packet_data 12))"
    using parse_ethernet_header_long [of packet_data] by auto
  with False assms show ?thesis
    by (simp add: try_body_def)
qed

lemma try_body_short_ip:
  assumes "length packet_data < 34"
  shows "try_body packet_data ts f st = (None, f, st)"
proof (cases "length packet_data < 14 \<or> u16 packet_data 12 \<noteq> 0x0800")
  case True
  then show ?thesis by (rule try_body_not_ipv4)
next
  case False
  then obtain d s where
    "parse_ethernet_header packet_data = Inr (Some d, Some s, Some (u16 packet_data 12))"
    using parse_ethernet_header_long [of packet_data] by auto
  with False assms show ?thesis
    by (simp add: try_body_def parse_ip_header_short)
qed

lemma try_body_ipv4:
  assumes "length packet_data \<ge> 34" and "u16 packet_data 12 = 0x0800"
  shows "\<exists>f' fs.
           try_body packet_data ts f st
             = (None, f',
                st\<lparr>flow_states := (flow_states st)
                   (FlowKey_tuple (FlowKey_init (src_ip f') (dst_ip f') (src_port f')
                                     (dst_port f') (protocol f')) \<mapsto> fs)\<rparr>)
         \<and> last_time fs = Some ts
         \<and> inet_ntoa (byte_slice packet_data 26 30) = Inr (src_ip f')
         \<and> inet_ntoa (byte_slice packet_data 30 34) = Inr (dst_ip f')
         \<and> protocol f' = u8 packet_data 23
         \<and> ttl f' = u8 packet_data 22
         \<and> tos f' = u8 packet_data 15
         \<and> header_length f' = (u8 packet_data 14 AND 0xF) * 4
         \<and> packet_length f' = packet_length f
         \<and> timestamp f' = timestamp f
         \<and> label f' = label f
         \<and> (u8 packet_data 23 \<noteq> 6 \<and> u8 packet_data 23 \<noteq> 17 \<longrightarrow>
              src_port f' = src_port f \<and> dst_port f' = dst_port f)"
proof -
  from assms obtain d s where
    eth: "parse_ethernet_header packet_data = Inr (Some d, Some s, Some 0x0800)"
    using parse_ethernet_header_long [of packet_data] by auto
  from assms obtain src dst info where
    src: "inet_ntoa (byte_slice packet_data 26 30) = Inr src"
    and dst: "inet_ntoa (byte_slice packet_data 30 34) = Inr dst"
    and ip: "parse_ip_header packet_data 14
               = Inr (Some (info, 14 + nat ((u8 packet_data 14 AND 0xF) * 4)))"
    and info: "ipi_src_ip info = src" "ipi_dst_ip info = dst"
      "ipi_protocol info = u8 packet_data 23" "ipi_ttl info = u8 packet_data 22"
      "ipi_tos info = u8 packet_data 15"
      "ipi_header_length info = (u8 packet_data 14 AND 0xF) * 4"
    using parse_ip_header_long [of packet_data] by blast
  define f1 where "f1 = f\<lparr>src_ip := ipi_src_ip info, dst_ip := ipi_dst_ip info,
                          protocol := ipi_protocol info, ttl := ipi_ttl info,
                          tos := ipi_tos info, header_length := ipi_header_length info\<rparr>"
  define off where "off = 14 + nat ((u8 packet_data 14 AND 0xF) * 4)"
  obtain f2 fl w where tr: "parse_transport packet_data info off f1 = Inr (f2, fl, w)"
    and k2: "src_ip f2 = src_ip f1" "dst_ip f2 = dst_ip f1" "protocol f2 = protocol f1"
      "ttl f2 = ttl f1" "tos f2 = tos f1" "header_length f2 = header_length f1"
      "packet_length f2 = packet_length f1" "timestamp f2 = timestamp f1" "label f2 = label f1"
    using parse_transport_total [of packet_data info off f1] by blast
  have other: "u8 packet_data 23 \<noteq> 6 \<and> u8 packet_data 23 \<noteq> 17 \<longrightarrow>
                 src_port f2 = src_port f \<and> dst_port f2 = dst_port f"
    using tr parse_transport_other [of info packet_data off f1]
    by (auto simp: info f1_def)
  let ?key = "FlowKey_init (src_ip f2) (dst_ip f2) (src_port f2) (dst_port f2) (protocol f2)"
  let ?fs = "update (case flow_states st (FlowKey_tuple ?key) of
                       None \<Rightarrow> FlowState_init | Some fs \<Rightarrow> fs)
               (packet_length f2) ts (is_forward ?key) fl w"
  obtain f3 where tf: "track_flow f2 ts fl w st
          = (Inr f3, st\<lparr>flow_states := (flow_states st)(FlowKey_tuple ?key \<mapsto> ?fs)\<rparr>)"
    and k3: "src_ip f3 = src_ip f2" "dst_ip f3 = dst_ip f2" "protocol f3 = protocol f2"
      "src_port f3 = src_port f2" "dst_port f3 = dst_port f2"
      "ttl f3 = ttl f2" "tos f3 = tos f2" "header_length f3 = header_length f2"
      "packet_length f3 = packet_length f2" "timestamp f3 = timestamp f2" "label f3 = label f2"
    using track_flow_total [of f2 ts fl w st] by blast
  have body: "try_body packet_data ts f st
          = (None, f3, st\<lparr>flow_states := (flow_states st)(FlowKey_tuple ?key \<mapsto> ?fs)\<rparr>)"
    unfolding try_body_def
    by (simp add: eth ip Let_def f1_def [symmetric] off_def [symmetric] tr tf)
  have lt: "last_time ?fs = Some ts"
    by (simp add: update_times)
  have f1v: "src_ip f1 = src" "dst_ip f1 = dst" "protocol f1 = u8 packet_data 23"
    "ttl f1 = u8 packet_data 22" "tos f1 = u8 packet_data 15"
    "header_length f1 = (u8 packet_data 14 AND 0xF) * 4"
    "packet_length f1 = packet_length f" "timestamp f1 = timestamp f" "label f1 = label f"
    by (simp_all add: f1_def info)
  show ?thesis
    apply (rule exI [of _ f3])
    apply (rule exI [of _ ?fs])
    using body lt other src dst
    by (simp add: k3 k2 f1v)
qed

lemma NetworkFeatures_init_fields:
  "label NetworkFeatures_init = ''BENIGN''" "src_ip NetworkFeatures_init = []"
  "dst_ip NetworkFeatures_init = []" "protocol NetworkFeatures_init = 0"
  "src_port NetworkFeatures_init = 0" "dst_port NetworkFeatures_init = 0"
  by (simp_all add: NetworkFeatures_init_def)

text \<open>When line 405 raises, \<^verbatim>\<open>parse_packet\<close> raises: the line stands before the
  \<^verbatim>\<open>try\<close> statement. A timestamp that is an infinity or NaN stays one when multiplied
  by 1000000, and \<^verbatim>\<open>int\<close> raises on it.\<close>

lemma parse_packet_raises:
  "int_of_float (fl (t * 1000000)) = Inl e \<Longrightarrow>
     parse_packet fl st packet_data (Finite t) now = Inl e"
  by (simp add: parse_packet_def and_then_def)

lemma parse_packet_not_finite:
  "parse_packet fl st packet_data PosInf now = Inl OverflowError"
  "parse_packet fl st packet_data NegInf now = Inl OverflowError"
  "parse_packet fl st packet_data NaN now = Inl ValueError"
  by (simp_all add: parse_packet_def)

text \<open>When line 405 returns and the body of the \<^verbatim>\<open>try\<close> statement leaves the record
  as it was, that record is returned.\<close>

lemma parse_packet_no_flow:
  assumes "int_of_float (fl (t * 1000000)) = Inr us"
    and "try_body packet_data t
             (NetworkFeatures_init\<lparr>timestamp := us,
                                       packet_length := int (length packet_data)\<rparr>)
             (cleanup_old_flows now st)
           = (None,
              NetworkFeatures_init\<lparr>timestamp := us,
                                       packet_length := int (length packet_data)\<rparr>,
              cleanup_old_flows now st)"
  shows "parse_packet fl st packet_data (Finite t) now
           = Inr (NetworkFeatures_init\<lparr>timestamp := us,
                                       packet_length := int (length packet_data)\<rparr>,
                  cleanup_old_flows now st)"
  unfolding parse_packet_def Let_def
  by (simp only: assms pyfloat.case and_then_def sum.case prod.case option.case)

lemma parse_packet_not_ipv4:
  assumes "length packet_data < 14 \<or> u16 packet_data 12 \<noteq> 0x0800"
    and "int_of_float (fl (t * 1000000)) = Inr us"
  shows "parse_packet fl st packet_data (Finite t) now
           = Inr (NetworkFeatures_init\<lparr>timestamp := us,
                                       packet_length := int (length packet_data)\<rparr>,
                  cleanup_old_flows now st)"
  by (rule parse_packet_no_flow [of fl t us, OF assms(2)]) (rule try_body_not_ipv4 [OF assms(1)])

lemma parse_packet_short_ip:
  assumes "length packet_data < 34"
    and "int_of_float (fl (t * 1000000)) = Inr us"
  shows "parse_packet fl st packet_data (Finite t) now
           = Inr (NetworkFeatures_init\<lparr>timestamp := us,
                                       packet_length := int (length packet_data)\<rparr>,
                  cleanup_old_flows now st)"
  by (rule parse_packet_no_flow [of fl t us, OF assms(2)]) (rule try_body_short_ip [OF assms(1)])

lemma parse_packet_ipv4:
  assumes "length packet_data \<ge> 34" and "u16 packet_data 12 = 0x0800"
    and "int_of_float (fl (t * 1000000)) = Inr us"
  shows "\<exists>f fs.
           parse_packet fl st packet_data (Finite t) now
             = Inr (f, (cleanup_old_flows now st)
                    \<lparr>flow_states := (flow_states (cleanup_old_flows now st))
                       (FlowKey_tuple (FlowKey_init (src_ip f) (dst_ip f) (src_port f)
                                         (dst_port f) (protocol f)) \<mapsto> fs)\<rparr>)
         \<and> last_time fs = Some t
         \<and> inet_ntoa (byte_slice packet_data 26 30) = Inr (src_ip f)
         \<and> inet_ntoa (byte_slice packet_data 30 34) = Inr (dst_ip f)
         \<and> protocol f = u8 packet_data 23
         \<and> ttl f = u8 packet_data 22
         \<and> tos f = u8 packet_data 15
         \<and> header_length f = (u8 packet_data 14 AND 0xF) * 4
         \<and> packet_length f = int (length packet_data)
         \<and> timestamp f = us
         \<and> label f = ''BENIGN''
         \<and> (u8 packet_data 23 \<noteq> 6 \<and> u8 packet_data 23 \<noteq> 17 \<longrightarrow>
              src_port f = 0 \<and> dst_port f = 0)"
proof -
  let ?f0 = "NetworkFeatures_init\<lparr>timestamp := us,
                                       packet_length := int (length packet_data)\<rparr>"
  let ?st1 = "cleanup_old_flows now st"
  obtain f fs where body: "try_body packet_data t ?f0 ?st1
             = (None, f,
                ?st1\<lparr>flow_states := (flow_states ?st1)
                   (FlowKey_tuple (FlowKey_init (src_ip f) (dst_ip f) (src_port f)
                                     (dst_port f) (protocol f)) \<mapsto> fs)\<rparr>)"
    and rest: "last_time fs = Some t"
      "inet_ntoa (byte_slice packet_data 26 30) = Inr (src_ip f)"
      "inet_ntoa (byte_slice packet_data 30 34) = Inr (dst_ip f)"
      "protocol f = u8 packet_data 23" "ttl f = u8 packet_data 22" "tos f = u8 packet_data 15"
      "header_length f = (u8 packet_data 14 AND 0xF) * 4"
      "packet_length f = packet_length ?f0" "timestamp f = timestamp ?f0"
      "label f = label ?f0"
      "u8 packet_data 23 \<noteq> 6 \<and> u8 packet_data 23 \<noteq> 17 \<longrightarrow>
         src_port f = src_port ?f0 \<and> dst_port f = dst_port ?f0"
    using try_body_ipv4 [OF assms(1,2), of t ?f0 ?st1] by blast
  have pp: "parse_packet fl st packet_data (Finite t) now
             = Inr (f, ?st1\<lparr>flow_states := (flow_states ?st1)
                   (FlowKey_tuple (FlowKey_init (src_ip f) (dst_ip f) (src_port f)
                                     (dst_port f) (protocol f)) \<mapsto> fs)\<rparr>)"
    unfolding parse_packet_def Let_def
    by (simp only: assms(3) body pyfloat.case and_then_def sum.case prod.case option.case)
  show ?thesis
    apply (rule exI [of _ f])
    apply (rule exI [of _ fs])
    using pp rest by (simp add: NetworkFeatures_init_fields)
qed

text \<open>Line 405 at the timestamps of the examples, all of them doubles whose product with
  1000000 is a double or is beyond the range of doubles.\<close>

lemma exact_in_range_examples:
  "int_of_float (exact_in_range (1000 * 1000000)) = Inr 1000000000"
  "int_of_float (exact_in_range (3 / 2 * 1000000)) = Inr 1500000"
  "int_of_float (exact_in_range (- 1 / 4 * 1000000)) = Inr (- 250000)"
  "int_of_float (exact_in_range (2 ^ 1020 * 1000000)) = Inl OverflowError"
  by (simp_all add: int_of_float_def exact_in_range_def py_int_def)

text \<open>
  Claim C1, as the code has it. For every frame of at least 14 bytes whose EtherType is
  not 0x0800 and every finite timestamp: when \<^verbatim>\<open>int(timestamp * 1000000)\<close> on line 405
  raises, \<^verbatim>\<open>parse_packet\<close> raises that exception; otherwise it returns the default
  record with only \<open>packet_length\<close> and \<open>timestamp\<close> set: \<open>src_ip\<close> is empty,
  \<open>protocol\<close> is 0, and the label stays \<open>''BENIGN''\<close>, since the body raises nothing
  and only the \<^verbatim>\<open>except\<close> clause sets \<open>''PARSING_ERROR''\<close>. The flow table is only
  swept.
\<close>

theorem non_ipv4_keeps_default_label:
  assumes "length packet_data \<ge> 14" and "u16 packet_data 12 \<noteq> 0x0800"
  shows "case int_of_float (fl (t * 1000000)) of
           Inl e \<Rightarrow> parse_packet fl st packet_data (Finite t) now = Inl e
         | Inr us \<Rightarrow>
             parse_packet fl st packet_data (Finite t) now
               = Inr (NetworkFeatures_init\<lparr>timestamp := us,
                    packet_length := int (length packet_data)\<rparr>,
                      cleanup_old_flows now st)
           \<and> label (NetworkFeatures_init\<lparr>timestamp := us,
                    packet_length := int (length packet_data)\<rparr>) = ''BENIGN''
           \<and> packet_length (NetworkFeatures_init\<lparr>timestamp := us,
                    packet_length := int (length packet_data)\<rparr>)
               = int (length packet_data)
           \<and> timestamp (NetworkFeatures_init\<lparr>timestamp := us,
                    packet_length := int (length packet_data)\<rparr>) = us
           \<and> src_ip (NetworkFeatures_init\<lparr>timestamp := us,
                    packet_length := int (length packet_data)\<rparr>) = []
           \<and> protocol (NetworkFeatures_init\<lparr>timestamp := us,
                    packet_length := int (length packet_data)\<rparr>) = 0"
proof (cases "int_of_float (fl (t * 1000000))")
  case (Inl e)
  then show ?thesis by (simp add: parse_packet_raises)
next
  case (Inr us)
  from assms have "length packet_data < 14 \<or> u16 packet_data 12 \<noteq> 0x0800" by simp
  from parse_packet_not_ipv4 [of packet_data fl t us, OF this Inr] Inr show ?thesis
    by (simp add: NetworkFeatures_init_fields)
qed

text \<open>The theorem at an 18-byte frame with EtherType 0x86DD, parsed at time 1000.\<close>

theorem non_ipv4_keeps_default_label_witness:
  "\<not> isl (parse_packet exact_in_range \<lparr>flow_states = Map.empty, last_cleanup = 1000\<rparr>
     [0xAA, 0xBB, 0xCC, 0xDD, 0xEE, 0xFF, 0x11, 0x22, 0x33, 0x44, 0x55, 0x66, 0x86, 0xDD,
      0x60, 0x00, 0x00, 0x00] (Finite 1000) 1000)
   \<and> label (fst (projr (parse_packet exact_in_range \<lparr>flow_states = Map.empty, last_cleanup = 1000\<rparr>
     [0xAA, 0xBB, 0xCC, 0xDD, 0xEE, 0xFF, 0x11, 0x22, 0x33, 0x44, 0x55, 0x66, 0x86, 0xDD,
      0x60, 0x00, 0x00, 0x00] (Finite 1000) 1000))) = ''BENIGN''
   \<and> packet_length (fst (projr (parse_packet exact_in_range \<lparr>flow_states = Map.empty, last_cleanup = 1000\<rparr>
     [0xAA, 0xBB, 0xCC, 0xDD, 0xEE, 0xFF, 0x11, 0x22, 0x33, 0x44, 0x55, 0x66, 0x86, 0xDD,
      0x60, 0x00, 0x00, 0x00] (Finite 1000) 1000))) = 18
   \<and> timestamp (fst (projr (parse_packet exact_in_range \<lparr>flow_states = Map.empty, last_cleanup = 1000\<rparr>
     [0xAA, 0xBB, 0xCC, 0xDD, 0xEE, 0xFF, 0x11, 0x22, 0x33, 0x44, 0x55, 0x66, 0x86, 0xDD,
      0x60, 0x00, 0x00, 0x00] (Finite 1000) 1000))) = 1000000000
   \<and> src_ip (fst (projr (parse_packet exact_in_range \<lparr>flow_states = Map.empty, last_cleanup = 1000\<rparr>
     [0xAA, 0xBB, 0xCC, 0xDD, 0xEE, 0xFF, 0x11, 0x22, 0x33, 0x44, 0x55, 0x66, 0x86, 0xDD,
      0x60, 0x00, 0x00, 0x00] (Finite 1000) 1000))) = []
   \<and> protocol (fst (projr (parse_packet exact_in_range \<lparr>flow_states = Map.empty, last_cleanup = 1000\<rparr>
     [0xAA, 0xBB, 0xCC, 0xDD, 0xEE, 0xFF, 0x11, 0x22, 0x33, 0x44, 0x55, 0x66, 0x86, 0xDD,
      0x60, 0x00, 0x00, 0x00] (Finite 1000) 1000))) = 0"
proof -
  let ?frame = "[0xAA, 0xBB, 0xCC, 0xDD, 0xEE, 0xFF, 0x11, 0x22, 0x33, 0x44, 0x55, 0x66, 0x86, 0xDD,
      0x60, 0x00, 0x00, 0x00] :: bytes"
  have len: "length ?frame \<ge> 14" by simp
  have ty: "u16 ?frame 12 \<noteq> 0x0800" by (simp add: u16_def)
  show ?thesis
    using non_ipv4_keeps_default_label [where fl = exact_in_range and t = 1000
        and st = "\<lparr>flow_states = Map.empty, last_cleanup = 1000\<rparr>" and now = 1000, OF len ty,
        unfolded exact_in_range_examples sum.case]
    by (simp add: NetworkFeatures_init_fields)
qed

text \<open>
  Claim C1 as stated fails at that frame: its label is \<open>''BENIGN''\<close>, not
  \<open>''PARSING_ERROR''\<close>.
\<close>

theorem non_ipv4_label_counterexample:
  "u16 [0xAA, 0xBB, 0xCC, 0xDD, 0xEE, 0xFF, 0x11, 0x22, 0x33, 0x44, 0x55, 0x66, 0x86, 0xDD,
      0x60, 0x00, 0x00, 0x00] 12 = 0x86DD
   \<and> \<not> isl (parse_packet exact_in_range \<lparr>flow_states = Map.empty, last_cleanup = 1000\<rparr>
     [0xAA, 0xBB, 0xCC, 0xDD, 0xEE, 0xFF, 0x11, 0x22, 0x33, 0x44, 0x55, 0x66, 0x86, 0xDD,
      0x60, 0x00, 0x00, 0x00] (Finite 1000) 1000)
   \<and> label (fst (projr (parse_packet exact_in_range \<lparr>flow_states = Map.empty, last_cleanup = 1000\<rparr>
     [0xAA, 0xBB, 0xCC, 0xDD, 0xEE, 0xFF, 0x11, 0x22, 0x33, 0x44, 0x55, 0x66, 0x86, 0xDD,
      0x60, 0x00, 0x00, 0x00] (Finite 1000) 1000))) = ''BENIGN''
   \<and> label (fst (projr (parse_packet exact_in_range \<lparr>flow_states = Map.empty, last_cleanup = 1000\<rparr>
     [0xAA, 0xBB, 0xCC, 0xDD, 0xEE, 0xFF, 0x11, 0x22, 0x33, 0x44, 0x55, 0x66, 0x86, 0xDD,
      0x60, 0x00, 0x00, 0x00] (Finite 1000) 1000))) \<noteq> ''PARSING_ERROR''"
proof -
  let ?frame = "[0xAA, 0xBB, 0xCC, 0xDD, 0xEE, 0xFF, 0x11, 0x22, 0x33, 0x44, 0x55, 0x66, 0x86, 0xDD,
      0x60, 0x00, 0x00, 0x00] :: bytes"
  have ty: "u16 ?frame 12 = 0x86DD" by (simp add: u16_def)
  have "length ?frame < 14 \<or> u16 ?frame 12 \<noteq> 0x0800" by (simp add: ty)
  from parse_packet_not_ipv4 [of ?frame exact_in_range 1000 1000000000 "\<lparr>flow_states = Map.empty, last_cleanup = 1000\<rparr>" 1000,
      OF this exact_in_range_examples(1)] ty
  show ?thesis by (simp add: NetworkFeatures_init_fields)
qed

text \<open>The addresses in two example frames of 34 bytes, which differ only in the version
  nibble of the first IP byte (6 and 4): ICMP from 10.0.0.1 to 10.0.0.2.\<close>

lemma example_frame_addresses:
  "inet_ntoa (byte_slice [0xAA, 0xBB, 0xCC, 0xDD, 0xEE, 0xFF, 0x11, 0x22, 0x33, 0x44, 0x55, 0x66, 0x08, 0x00,
      0x65, 0x00, 0x00, 0x14, 0x00, 0x00, 0x00, 0x00, 0x40, 0x01, 0x00, 0x00,
      10, 0, 0, 1, 10, 0, 0, 2] 26 30) = Inr ''10.0.0.1''"
  "inet_ntoa (byte_slice [0xAA, 0xBB, 0xCC, 0xDD, 0xEE, 0xFF, 0x11, 0x22, 0x33, 0x44, 0x55, 0x66, 0x08, 0x00,
      0x65, 0x00, 0x00, 0x14, 0x00, 0x00, 0x00, 0x00, 0x40, 0x01, 0x00, 0x00,
      10, 0, 0, 1, 10, 0, 0, 2] 30 34) = Inr ''10.0.0.2''"
  "inet_ntoa (byte_slice [0xAA, 0xBB, 0xCC, 0xDD, 0xEE, 0xFF, 0x11, 0x22, 0x33, 0x44, 0x55, 0x66, 0x08, 0x00,
      0x45, 0x00, 0x00, 0x14, 0x00, 0x00, 0x00, 0x00, 0x40, 0x01, 0x00, 0x00,
      10, 0, 0, 1, 10, 0, 0, 2] 26 30) = Inr ''10.0.0.1''"
  "inet_ntoa (byte_slice [0xAA, 0xBB, 0xCC, 0xDD, 0xEE, 0xFF, 0x11, 0x22, 0x33, 0x44, 0x55, 0x66, 0x08, 0x00,
      0x45, 0x00, 0x00, 0x14, 0x00, 0x00, 0x00, 0x00, 0x40, 0x01, 0x00, 0x00,
      10, 0, 0, 1, 10, 0, 0, 2] 30 34) = Inr ''10.0.0.2''"
  by (simp_all add: byte_slice_def inet_ntoa_def decimal.simps digit_char_def)

text \<open>
  Claim C4, as the code has it. For every frame with EtherType 0x0800 and at least 34
  bytes and every finite timestamp: when \<^verbatim>\<open>int(timestamp * 1000000)\<close> on line 405
  raises, \<^verbatim>\<open>parse_packet\<close> raises that exception; otherwise parsing continues past the
  IP header whatever the version nibble is: \<^verbatim>\<open>parse_ip_header\<close> stores the version in
  \<^verbatim>\<open>ip_info\<close> and nothing tests it. The addresses, protocol, TTL, TOS and header length
  are copied from the header, the flow of the packet is created or updated in the table
  with this packet as its last one, and the label stays \<open>''BENIGN''\<close>.
\<close>

theorem ipv4_parsed_whatever_version:
  assumes "length packet_data \<ge> 34" and "u16 packet_data 12 = 0x0800"
  shows "case int_of_float (fl (t * 1000000)) of
           Inl e \<Rightarrow> parse_packet fl st packet_data (Finite t) now = Inl e
         | Inr us \<Rightarrow>
             (\<exists>f fs.
                parse_packet fl st packet_data (Finite t) now
                  = Inr (f, (cleanup_old_flows now st)
                    \<lparr>flow_states := (flow_states (cleanup_old_flows now st))
                       (FlowKey_tuple (FlowKey_init (src_ip f) (dst_ip f) (src_port f)
                                         (dst_port f) (protocol f)) \<mapsto> fs)\<rparr>)
              \<and> last_time fs = Some t
              \<and> inet_ntoa (byte_slice packet_data 26 30) = Inr (src_ip f)
              \<and> inet_ntoa (byte_slice packet_data 30 34) = Inr (dst_ip f)
              \<and> protocol f = u8 packet_data 23
              \<and> ttl f = u8 packet_data 22
              \<and> tos f = u8 packet_data 15
              \<and> header_length f = (u8 packet_data 14 AND 0xF) * 4
              \<and> label f = ''BENIGN'')"
proof (cases "int_of_float (fl (t * 1000000))")
  case (Inl e)
  then show ?thesis by (simp add: parse_packet_raises)
next
  case (Inr us)
  from parse_packet_ipv4 [of packet_data fl t us st now, OF assms Inr]
  obtain f fs where
    "parse_packet fl st packet_data (Finite t) now
       = Inr (f, (cleanup_old_flows now st)
                    \<lparr>flow_states := (flow_states (cleanup_old_flows now st))
                       (FlowKey_tuple (FlowKey_init (src_ip f) (dst_ip f) (src_port f)
                                         (dst_port f) (protocol f)) \<mapsto> fs)\<rparr>)"
    and "last_time fs = Some t"
    and "inet_ntoa (byte_slice packet_data 26 30) = Inr (src_ip f)"
    and "inet_ntoa (byte_slice packet_data 30 34) = Inr (dst_ip f)"
    and "protocol f = u8 packet_data 23" and "ttl f = u8 packet_data 22"
    and "tos f = u8 packet_data 15"
    and "header_length f = (u8 packet_data 14 AND 0xF) * 4" and "label f = ''BENIGN''"
    by blast
  then have "\<exists>f fs.
                parse_packet fl st packet_data (Finite t) now
                  = Inr (f, (cleanup_old_flows now st)
                    \<lparr>flow_states := (flow_states (cleanup_old_flows now st))
                       (FlowKey_tuple (FlowKey_init (src_ip f) (dst_ip f) (src_port f)
                                         (dst_port f) (protocol f)) \<mapsto> fs)\<rparr>)
              \<and> last_time fs = Some t
              \<and> inet_ntoa (byte_slice packet_data 26 30) = Inr (src_ip f)
              \<and> inet_ntoa (byte_slice packet_data 30 34) = Inr (dst_ip f)
              \<and> protocol f = u8 packet_data 23
              \<and> ttl f = u8 packet_data 22
              \<and> tos f = u8 packet_data 15
              \<and> header_length f = (u8 packet_data 14 AND 0xF) * 4
              \<and> label f = ''BENIGN''"
    by blast
  with Inr show ?thesis by (simp only: sum.case)
qed

text \<open>The theorem at the example frame with version 4.\<close>

theorem ipv4_parsed_whatever_version_witness:
  "\<not> isl (parse_packet exact_in_range \<lparr>flow_states = Map.empty, last_cleanup = 1000\<rparr>
     [0xAA, 0xBB, 0xCC, 0xDD, 0xEE, 0xFF, 0x11, 0x22, 0x33, 0x44, 0x55, 0x66, 0x08, 0x00,
      0x45, 0x00, 0x00, 0x14, 0x00, 0x00, 0x00, 0x00, 0x40, 0x01, 0x00, 0x00,
      10, 0, 0, 1, 10, 0, 0, 2] (Finite 1000) 1000)
   \<and> src_ip (fst (projr (parse_packet exact_in_range \<lparr>flow_states = Map.empty, last_cleanup = 1000\<rparr>
     [0xAA, 0xBB, 0xCC, 0xDD, 0xEE, 0xFF, 0x11, 0x22, 0x33, 0x44, 0x55, 0x66, 0x08, 0x00,
      0x45, 0x00, 0x00, 0x14, 0x00, 0x00, 0x00, 0x00, 0x40, 0x01, 0x00, 0x00,
      10, 0, 0, 1, 10, 0, 0, 2] (Finite 1000) 1000))) = ''10.0.0.1''
   \<and> dst_ip (fst (projr (parse_packet exact_in_range \<lparr>flow_states = Map.empty, last_cleanup = 1000\<rparr>
     [0xAA, 0xBB, 0xCC, 0xDD, 0xEE, 0xFF, 0x11, 0x22, 0x33, 0x44, 0x55, 0x66, 0x08, 0x00,
      0x45, 0x00, 0x00, 0x14, 0x00, 0x00, 0x00, 0x00, 0x40, 0x01, 0x00, 0x00,
      10, 0, 0, 1, 10, 0, 0, 2] (Finite 1000) 1000))) = ''10.0.0.2''
   \<and> protocol (fst (projr (parse_packet exact_in_range \<lparr>flow_states = Map.empty, last_cleanup = 1000\<rparr>
     [0xAA, 0xBB, 0xCC, 0xDD, 0xEE, 0xFF, 0x11, 0x22, 0x33, 0x44, 0x55, 0x66, 0x08, 0x00,
      0x45, 0x00, 0x00, 0x14, 0x00, 0x00, 0x00, 0x00, 0x40, 0x01, 0x00, 0x00,
      10, 0, 0, 1, 10, 0, 0, 2] (Finite 1000) 1000))) = 1
   \<and> ttl (fst (projr (parse_packet exact_in_range \<lparr>flow_states = Map.empty, last_cleanup = 1000\<rparr>
     [0xAA, 0xBB, 0xCC, 0xDD, 0xEE, 0xFF, 0x11, 0x22, 0x33, 0x44, 0x55, 0x66, 0x08, 0x00,
      0x45, 0x00, 0x00, 0x14, 0x00, 0x00, 0x00, 0x00, 0x40, 0x01, 0x00, 0x00,
      10, 0, 0, 1, 10, 0, 0, 2] (Finite 1000) 1000))) = 64
   \<and> header_length (fst (projr (parse_packet exact_in_range \<lparr>flow_states = Map.empty, last_cleanup = 1000\<rparr>
     [0xAA, 0xBB, 0xCC, 0xDD, 0xEE, 0xFF, 0x11, 0x22, 0x33, 0x44, 0x55, 0x66, 0x08, 0x00,
      0x45, 0x00, 0x00, 0x14, 0x00, 0x00, 0x00, 0x00, 0x40, 0x01, 0x00, 0x00,
      10, 0, 0, 1, 10, 0, 0, 2] (Finite 1000) 1000))) = 20
   \<and> label (fst (projr (parse_packet exact_in_range \<lparr>flow_states = Map.empty, last_cleanup = 1000\<rparr>
     [0xAA, 0xBB, 0xCC, 0xDD, 0xEE, 0xFF, 0x11, 0x22, 0x33, 0x44, 0x55, 0x66, 0x08, 0x00,
      0x45, 0x00, 0x00, 0x14, 0x00, 0x00, 0x00, 0x00, 0x40, 0x01, 0x00, 0x00,
      10, 0, 0, 1, 10, 0, 0, 2] (Finite 1000) 1000))) = ''BENIGN''"
proof -
  let ?frame = "[0xAA, 0xBB, 0xCC, 0xDD, 0xEE, 0xFF, 0x11, 0x22, 0x33, 0x44, 0x55, 0x66, 0x08, 0x00,
      0x45, 0x00, 0x00, 0x14, 0x00, 0x00, 0x00, 0x00, 0x40, 0x01, 0x00, 0x00,
      10, 0, 0, 1, 10, 0, 0, 2] :: bytes"
  have len: "length ?frame \<ge> 34" by simp
  have ty: "u16 ?frame 12 = 0x0800" by (simp add: u16_def)
  have b: "u8 ?frame 23 = 1" "u8 ?frame 22 = 64" "(u8 ?frame 14 AND 0xF) * 4 = 20"
    by (simp_all add: u8_def)
  have "\<exists>f st'.
      parse_packet exact_in_range \<lparr>flow_states = Map.empty, last_cleanup = 1000\<rparr> ?frame (Finite 1000) 1000 = Inr (f, st')
    \<and> inet_ntoa (byte_slice ?frame 26 30) = Inr (src_ip f)
    \<and> inet_ntoa (byte_slice ?frame 30 34) = Inr (dst_ip f)
    \<and> protocol f = u8 ?frame 23 \<and> ttl f = u8 ?frame 22
    \<and> header_length f = (u8 ?frame 14 AND 0xF) * 4 \<and> label f = ''BENIGN''"
    using ipv4_parsed_whatever_version [where fl = exact_in_range and t = 1000
        and st = "\<lparr>flow_states = Map.empty, last_cleanup = 1000\<rparr>" and now = 1000, OF len ty]
    by (simp only: exact_in_range_examples sum.case) blast
  then obtain f st' where
    "parse_packet exact_in_range \<lparr>flow_states = Map.empty, last_cleanup = 1000\<rparr> ?frame (Finite 1000) 1000 = Inr (f, st')"
    and "inet_ntoa (byte_slice ?frame 26 30) = Inr (src_ip f)"
    and "inet_ntoa (byte_slice ?frame 30 34) = Inr (dst_ip f)"
    and "protocol f = u8 ?frame 23" and "ttl f = u8 ?frame 22"
    and "header_length f = (u8 ?frame 14 AND 0xF) * 4" and "label f = ''BENIGN''"
    by blast
  then show ?thesis
    by (simp add: example_frame_addresses b)
qed

text \<open>
  Claim C4 as stated fails at the example frame with version 6: the frame has EtherType
  0x0800 and 34 bytes, its version nibble is 6, and \<^verbatim>\<open>parse_packet\<close> fills in the
  addresses and the protocol, keeps the label \<open>''BENIGN''\<close> and enters the flow in the
  table.
\<close>

theorem version_6_parsed_counterexample:
  "drop_bit 4 (u8 [0xAA, 0xBB, 0xCC, 0xDD, 0xEE, 0xFF, 0x11, 0x22, 0x33, 0x44, 0x55, 0x66, 0x08, 0x00,
      0x65, 0x00, 0x00, 0x14, 0x00, 0x00, 0x00, 0x00, 0x40, 0x01, 0x00, 0x00,
      10, 0, 0, 1, 10, 0, 0, 2] 14) = 6
   \<and> u16 [0xAA, 0xBB, 0xCC, 0xDD, 0xEE, 0xFF, 0x11, 0x22, 0x33, 0x44, 0x55, 0x66, 0x08, 0x00,
      0x65, 0x00, 0x00, 0x14, 0x00, 0x00, 0x00, 0x00, 0x40, 0x01, 0x00, 0x00,
      10, 0, 0, 1, 10, 0, 0, 2] 12 = 0x0800
   \<and> length [0xAA, 0xBB, 0xCC, 0xDD, 0xEE, 0xFF, 0x11, 0x22, 0x33, 0x44, 0x55, 0x66, 0x08, 0x00,
      0x65, 0x00, 0x00, 0x14, 0x00, 0x00, 0x00, 0x00, 0x40, 0x01, 0x00, 0x00,
      10, 0, 0, 1, 10, 0, 0, 2] = 34
   \<and> \<not> isl (parse_packet exact_in_range \<lparr>flow_states = Map.empty, last_cleanup = 1000\<rparr>
     [0xAA, 0xBB, 0xCC, 0xDD, 0xEE, 0xFF, 0x11, 0x22, 0x33, 0x44, 0x55, 0x66, 0x08, 0x00,
      0x65, 0x00, 0x00, 0x14, 0x00, 0x00, 0x00, 0x00, 0x40, 0x01, 0x00, 0x00,
      10, 0, 0, 1, 10, 0, 0, 2] (Finite 1000) 1000)
   \<and> src_ip (fst (projr (parse_packet exact_in_range \<lparr>flow_states = Map.empty, last_cleanup = 1000\<rparr>
     [0xAA, 0xBB, 0xCC, 0xDD, 0xEE, 0xFF, 0x11, 0x22, 0x33, 0x44, 0x55, 0x66, 0x08, 0x00,
      0x65, 0x00, 0x00, 0x14, 0x00, 0x00, 0x00, 0x00, 0x40, 0x01, 0x00, 0x00,
      10, 0, 0, 1, 10, 0, 0, 2] (Finite 1000) 1000))) = ''10.0.0.1''
   \<and> dst_ip (fst (projr (parse_packet exact_in_range \<lparr>flow_states = Map.empty, last_cleanup = 1000\<rparr>
     [0xAA, 0xBB, 0xCC, 0xDD, 0xEE, 0xFF, 0x11, 0x22, 0x33, 0x44, 0x55, 0x66, 0x08, 0x00,
      0x65, 0x00, 0x00, 0x14, 0x00, 0x00, 0x00, 0x00, 0x40, 0x01, 0x00, 0x00,
      10, 0, 0, 1, 10, 0, 0, 2] (Finite 1000) 1000))) = ''10.0.0.2''
   \<and> protocol (fst (projr (parse_packet exact_in_range \<lparr>flow_states = Map.empty, last_cleanup = 1000\<rparr>
     [0xAA, 0xBB, 0xCC, 0xDD, 0xEE, 0xFF, 0x11, 0x22, 0x33, 0x44, 0x55, 0x66, 0x08, 0x00,
      0x65, 0x00, 0x00, 0x14, 0x00, 0x00, 0x00, 0x00, 0x40, 0x01, 0x00, 0x00,
      10, 0, 0, 1, 10, 0, 0, 2] (Finite 1000) 1000))) = 1
   \<and> label (fst (projr (parse_packet exact_in_range \<lparr>flow_states = Map.empty, last_cleanup = 1000\<rparr>
     [0xAA, 0xBB, 0xCC, 0xDD, 0xEE, 0xFF, 0x11, 0x22, 0x33, 0x44, 0x55, 0x66, 0x08, 0x00,
      0x65, 0x00, 0x00, 0x14, 0x00, 0x00, 0x00, 0x00, 0x40, 0x01, 0x00, 0x00,
      10, 0, 0, 1, 10, 0, 0, 2] (Finite 1000) 1000))) = ''BENIGN''
   \<and> flow_states (snd (projr (parse_packet exact_in_range \<lparr>flow_states = Map.empty, last_cleanup = 1000\<rparr>
     [0xAA, 0xBB, 0xCC, 0xDD, 0xEE, 0xFF, 0x11, 0x22, 0x33, 0x44, 0x55, 0x66, 0x08, 0x00,
      0x65, 0x00, 0x00, 0x14, 0x00, 0x00, 0x00, 0x00, 0x40, 0x01, 0x00, 0x00,
      10, 0, 0, 1, 10, 0, 0, 2] (Finite 1000) 1000)))
        (''10.0.0.1'', 0, ''10.0.0.2'', 0, 1) \<noteq> None"
proof -
  let ?frame = "[0xAA, 0xBB, 0xCC, 0xDD, 0xEE, 0xFF, 0x11, 0x22, 0x33, 0x44, 0x55, 0x66, 0x08, 0x00,
      0x65, 0x00, 0x00, 0x14, 0x00, 0x00, 0x00, 0x00, 0x40, 0x01, 0x00, 0x00,
      10, 0, 0, 1, 10, 0, 0, 2] :: bytes"
  have len: "length ?frame \<ge> 34" by simp
  have ty: "u16 ?frame 12 = 0x0800" by (simp add: u16_def)
  have v: "drop_bit 4 (u8 ?frame 14) = 6" by (simp add: u8_def)
  have b: "u8 ?frame 23 = 1" by (simp add: u8_def)
  obtain f fs where
    pp: "parse_packet exact_in_range \<lparr>flow_states = Map.empty, last_cleanup = 1000\<rparr> ?frame (Finite 1000) 1000
       = Inr (f, (cleanup_old_flows 1000 \<lparr>flow_states = Map.empty, last_cleanup = 1000\<rparr>)
              \<lparr>flow_states := (flow_states (cleanup_old_flows 1000 \<lparr>flow_states = Map.empty, last_cleanup = 1000\<rparr>))
                 (FlowKey_tuple (FlowKey_init (src_ip f) (dst_ip f) (src_port f)
                                   (dst_port f) (protocol f)) \<mapsto> fs)\<rparr>)"
    and src: "inet_ntoa (byte_slice ?frame 26 30) = Inr (src_ip f)"
    and dst: "inet_ntoa (byte_slice ?frame 30 34) = Inr (dst_ip f)"
    and pr: "protocol f = u8 ?frame 23" and lab: "label f = ''BENIGN''"
    and ports: "u8 ?frame 23 \<noteq> 6 \<and> u8 ?frame 23 \<noteq> 17 \<longrightarrow>
                  src_port f = 0 \<and> dst_port f = 0"
    using parse_packet_ipv4 [of ?frame exact_in_range 1000 1000000000 "\<lparr>flow_states = Map.empty, last_cleanup = 1000\<rparr>" 1000,
        OF len ty exact_in_range_examples(1)] by blast
  from src dst have ips: "src_ip f = ''10.0.0.1''" "dst_ip f = ''10.0.0.2''"
    by (simp_all add: example_frame_addresses)
  from ports b have p0: "src_port f = 0" "dst_port f = 0" by simp_all
  have key: "FlowKey_tuple (FlowKey_init ''10.0.0.1'' ''10.0.0.2'' 0 0 1)
               = (''10.0.0.1'', 0, ''10.0.0.2'', 0, 1)"
    by (simp add: FlowKey_tuple_def FlowKey_init_def tuple_lt_def)
  have st: "flow_states (snd (projr (parse_packet exact_in_range \<lparr>flow_states = Map.empty, last_cleanup = 1000\<rparr> ?frame
               (Finite 1000) 1000)))
        (''10.0.0.1'', 0, ''10.0.0.2'', 0, 1) \<noteq> None"
    by (simp add: pp ips p0 pr b key)
  from v ty st show ?thesis
    by (simp add: pp ips pr b lab)
qed

text \<open>The body of the \<^verbatim>\<open>try\<close> statement raises nothing, for any input.\<close>

lemma try_body_raises_nothing: "fst (try_body packet_data ts f st) = None"
proof (cases "length packet_data < 34")
  case True
  then show ?thesis by (simp add: try_body_short_ip)
next
  case False
  show ?thesis
  proof (cases "u16 packet_data 12 = 0x0800")
    case True
    with False show ?thesis
      using try_body_ipv4 [of packet_data ts f st] by auto
  next
    case False
    then show ?thesis by (simp add: try_body_not_ipv4)
  qed
qed

text \<open>So when line 405 returns, \<^verbatim>\<open>parse_packet\<close> returns, for a byte sequence of any
  length.\<close>

lemma parse_packet_returns:
  assumes "int_of_float (fl (t * 1000000)) = Inr us"
  shows "\<exists>f st'. parse_packet fl st packet_data (Finite t) now = Inr (f, st')
           \<and> packet_length f = int (length packet_data) \<and> timestamp f = us"
proof (cases "length packet_data < 34")
  case True
  from parse_packet_short_ip [of packet_data fl t us, OF True assms] show ?thesis
    by simp
next
  case False
  show ?thesis
  proof (cases "u16 packet_data 12 = 0x0800")
    case True
    from False have "length packet_data \<ge> 34" by simp
    from parse_packet_ipv4 [of packet_data fl t us st now, OF this True assms] show ?thesis
      by blast
  next
    case False
    then have "length packet_data < 14 \<or> u16 packet_data 12 \<noteq> 0x0800" by simp
    from parse_packet_not_ipv4 [of packet_data fl t us, OF this assms] show ?thesis
      by simp
  qed
qed

text \<open>
  Claim C10, as the code has it. For every byte sequence, of any length,
  \<^verbatim>\<open>parse_packet\<close> returns exactly when \<^verbatim>\<open>int(timestamp * 1000000)\<close> on line 405,
  before the \<^verbatim>\<open>try\<close> statement, returns: for a finite timestamp whose product with
  1000000, as float arithmetic rounds it, is finite. The record returned then has
  \<open>packet_length\<close> equal to the length of the input and \<open>timestamp\<close> equal to that
  product truncated toward zero. When line 405 raises, \<^verbatim>\<open>parse_packet\<close> raises the same
  exception: \<^verbatim>\<open>OverflowError\<close> for an infinite timestamp or product,
  \<^verbatim>\<open>ValueError\<close> for NaN.
\<close>

theorem parse_packet_returns_when_line_405_does:
  "(case int_of_float (fl (t * 1000000)) of
      Inl e \<Rightarrow> parse_packet fl st packet_data (Finite t) now = Inl e
    | Inr us \<Rightarrow>
        (\<exists>f st'. parse_packet fl st packet_data (Finite t) now = Inr (f, st')
           \<and> packet_length f = int (length packet_data) \<and> timestamp f = us))
   \<and> parse_packet fl st packet_data PosInf now = Inl OverflowError
   \<and> parse_packet fl st packet_data NegInf now = Inl OverflowError
   \<and> parse_packet fl st packet_data NaN now = Inl ValueError"
proof (cases "int_of_float (fl (t * 1000000))")
  case (Inl e)
  then show ?thesis by (simp add: parse_packet_raises parse_packet_not_finite)
next
  case (Inr us)
  from parse_packet_returns [of fl t us st packet_data now, OF Inr] Inr show ?thesis
    by (simp add: parse_packet_not_finite)
qed

text \<open>The theorem at the empty input at time 1.5 and at a 3-byte input at time -0.25.\<close>

theorem parse_packet_returns_when_line_405_does_witness:
  "\<not> isl (parse_packet exact_in_range \<lparr>flow_states = Map.empty, last_cleanup = 1000\<rparr> [] (Finite (3 / 2)) 1000)
   \<and> packet_length (fst (projr (parse_packet exact_in_range \<lparr>flow_states = Map.empty, last_cleanup = 1000\<rparr> []
        (Finite (3 / 2)) 1000))) = 0
   \<and> timestamp (fst (projr (parse_packet exact_in_range \<lparr>flow_states = Map.empty, last_cleanup = 1000\<rparr> []
        (Finite (3 / 2)) 1000))) = 1500000
   \<and> packet_length (fst (projr (parse_packet exact_in_range \<lparr>flow_states = Map.empty, last_cleanup = 1000\<rparr> [0x08, 0x00, 0x45]
        (Finite (- 1 / 4)) 1000))) = 3
   \<and> timestamp (fst (projr (parse_packet exact_in_range \<lparr>flow_states = Map.empty, last_cleanup = 1000\<rparr> [0x08, 0x00, 0x45]
        (Finite (- 1 / 4)) 1000))) = - 250000"
  using parse_packet_returns_when_line_405_does
      [where fl = exact_in_range and t = "3 / 2" and st = "\<lparr>flow_states = Map.empty, last_cleanup = 1000\<rparr>"
         and packet_data = "[]" and now = 1000,
       unfolded exact_in_range_examples sum.case]
    parse_packet_returns_when_line_405_does
      [where fl = exact_in_range and t = "- 1 / 4" and st = "\<lparr>flow_states = Map.empty, last_cleanup = 1000\<rparr>"
         and packet_data = "[0x08, 0x00, 0x45]" and now = 1000,
       unfolded exact_in_range_examples sum.case]
  by auto

text \<open>
  Claim C10 as stated, for every timestamp, fails: on the empty input
  \<^verbatim>\<open>parse_packet\<close> raises \<^verbatim>\<open>ValueError\<close> at the timestamp NaN and \<^verbatim>\<open>OverflowError\<close>
  at the timestamp infinity and at the finite timestamp \<open>2 ^ 1020\<close>, whose product with
  1000000 is beyond the range of doubles.
\<close>

theorem parse_packet_raises_counterexample:
  "parse_packet exact_in_range \<lparr>flow_states = Map.empty, last_cleanup = 1000\<rparr> [] NaN 1000 = Inl ValueError
   \<and> parse_packet exact_in_range \<lparr>flow_states = Map.empty, last_cleanup = 1000\<rparr> [] PosInf 1000 = Inl OverflowError
   \<and> parse_packet exact_in_range \<lparr>flow_states = Map.empty, last_cleanup = 1000\<rparr> [] (Finite (2 ^ 1020)) 1000
       = Inl OverflowError"
  by (intro conjI parse_packet_not_finite
        parse_packet_raises [of exact_in_range "2 ^ 1020", OF exact_in_range_examples(4)])

end
